theory Spec2Isabelle
  imports Main "HOL-Library.Sublist"
begin

section \<open>JavaScript values used by the bridge\<close>

text \<open>
  A value thrown by JavaScript code is either an \<open>Error\<close> object carrying a message, or
  some other value, of which only its \<open>String(...)\<close> rendering is kept.
\<close>

datatype thrown = Error string | NonError string

text \<open>\<^verbatim>\<open>error instanceof Error ? error.message : String(error)\<close>\<close>

fun errorText :: "thrown \<Rightarrow> string" where
  "errorText (Error m) = m"
| "errorText (NonError s) = s"

text \<open>\<^verbatim>\<open>error instanceof Error ? error.message : 'Unknown error'\<close>\<close>

fun messageOrUnknown :: "thrown \<Rightarrow> string" where
  "messageOrUnknown (Error m) = m"
| "messageOrUnknown (NonError s) = ''Unknown error''"

text \<open>\<^verbatim>\<open>s.endsWith(ending)\<close>\<close>

definition endsWith :: "string \<Rightarrow> string \<Rightarrow> bool" where
  "endsWith s ending =
     (length ending \<le> length s \<and> drop (length s - length ending) s = ending)"

text \<open>The decimal rendering of a non-negative integer inside a template string.\<close>

fun showNat :: "nat \<Rightarrow> string" where
  "showNat n =
     (if n < 10 then [''0123456789'' ! n]
      else showNat (n div 10) @ [''0123456789'' ! (n mod 10)])"

declare showNat.simps [simp del]

section \<open>Data model (types.ts)\<close>

text \<open>
  Record fields carry a prefix naming their interface, since several interfaces of the
  source share the field names \<open>name\<close>, \<open>perm\<close>, \<open>content\<close> and \<open>lastModified\<close>.
  Timestamps are integers.
\<close>

datatype perm = ro | rw

record SBFile =
  sb_name :: string
  sb_lastModified :: int
  sb_contentType :: string
  sb_size :: nat
  sb_perm :: perm

record NoteInfo =
  ni_name :: string
  ni_perm :: perm

record CacheEntry =
  ce_content :: string
  ce_lastModified :: int

section \<open>The remote store seen through fetch\<close>

text \<open>
  A request is its method, its URL and (for PUT) its body; the headers are constant.
  A response carries its status line and what \<open>response.text()\<close> and
  \<open>response.json()\<close> deliver, each of which may throw. \<open>response.ok\<close> is true for
  the statuses 200 to 299.
\<close>

datatype request = Get string | Put string string | Delete string

record response =
  status :: nat
  statusText :: string
  body_text :: "thrown + string"
  body_json :: "thrown + SBFile list"

definition ok :: "response \<Rightarrow> bool" where
  "ok r = (200 \<le> status r \<and> status r \<le> 299)"

text \<open>\<^verbatim>\<open>console.error(message)\<close> and \<^verbatim>\<open>console.error(message, error)\<close>\<close>

datatype console_entry = ConsoleError string "thrown option"

text \<open>
  The environment of the process: its configuration, the platform's
  \<open>encodeURIComponent\<close>, the platform's regular-expression engine on the patterns that
  are not modelled here (see below), and the behaviour of the remote store. The store
  answers a request knowing every request issued before it, so its answers may change
  over time and depend on earlier writes; \<open>Inl\<close> is a \<open>fetch\<close> that rejects.
\<close>

record env =
  SB_API_BASE_URL :: string
  encodeURIComponent :: "string \<Rightarrow> string"
  respond :: "request list \<Rightarrow> request \<Rightarrow> thrown + response"
  regexError :: "string \<Rightarrow> thrown option"
  regexCount :: "string \<Rightarrow> bool \<Rightarrow> string \<Rightarrow> nat"

text \<open>
  The mutable state: the requests issued so far, the console, and the module-level
  \<open>contentCache\<close> of cache.ts.
\<close>

record state =
  requests :: "request list"
  console :: "console_entry list"
  contentCache :: "string \<rightharpoonup> CacheEntry"

definition consoleError :: "string \<Rightarrow> thrown option \<Rightarrow> state \<Rightarrow> state" where
  "consoleError msg err st = st\<lparr>console := console st @ [ConsoleError msg err]\<rparr>"

definition fetch :: "env \<Rightarrow> request \<Rightarrow> state \<Rightarrow> (thrown + response) \<times> state" where
  "fetch e req st = (respond e (requests st) req, st\<lparr>requests := requests st @ [req]\<rparr>)"

section \<open>silverbullet-api.ts\<close>

definition indexUrl :: "env \<Rightarrow> string" where
  "indexUrl e = SB_API_BASE_URL e @ ''/index.json''"

definition noteUrl :: "env \<Rightarrow> string \<Rightarrow> string" where
  "noteUrl e filename = SB_API_BASE_URL e @ ''/'' @ encodeURIComponent e filename"

definition handleFetchError :: "string \<Rightarrow> thrown \<Rightarrow> state \<Rightarrow> (thrown + 'a) \<times> state" where
  "handleFetchError url error st =
     (Inl (Error (''Failed to connect to SilverBullet API at '' @ url @ '': '' @ errorText error)),
      consoleError (''[API] Fetch failed for '' @ url @ '':'') (Some error) st)"

definition handleResponseError ::
  "string \<Rightarrow> response \<Rightarrow> string \<Rightarrow> state \<Rightarrow> (thrown + 'a) \<times> state" where
  "handleResponseError url resp ctxt st =
     (case body_text resp of
        Inl error \<Rightarrow> (Inl error, st)
      | Inr responseText \<Rightarrow>
          (Inl (Error (''Failed '' @ ctxt @ '' from SilverBullet API ('' @ url @ ''): ''
                       @ showNat (status resp) @ '' '' @ statusText resp)),
           consoleError (''[API] Error response body for '' @ ctxt @ '' (first 500 chars): ''
                         @ take 500 responseText) None st))"

definition listNotesAPI :: "env \<Rightarrow> state \<Rightarrow> (thrown + NoteInfo list) \<times> state" where
  "listNotesAPI e st =
     (let url = indexUrl e in
      case fetch e (Get url) st of
        (Inl error, st1) \<Rightarrow> handleFetchError url error st1
      | (Inr resp, st1) \<Rightarrow>
          if \<not> ok resp then handleResponseError url resp ''to list notes'' st1
          else
            (case body_json resp of
               Inr files \<Rightarrow>
                 (Inr (map (\<lambda>f. \<lparr>ni_name = sb_name f, ni_perm = sb_perm f\<rparr>)
                        (filter (\<lambda>f. endsWith (sb_name f) ''.md'') files)), st1)
             | Inl error \<Rightarrow>
                 (let st2 = consoleError ''[listNotesAPI] Failed to parse JSON response:''
                              (Some error) st1;
                      st3 = (case body_text resp of
                               Inr responseText \<Rightarrow>
                                 consoleError (''[listNotesAPI] Response body (first 500 chars): ''
                                               @ take 500 responseText) None st2
                             | Inl textError \<Rightarrow>
                                 consoleError ''[listNotesAPI] Could not read response body as text:''
                                   (Some textError) st2)
                  in (Inl (Error (''Failed to parse JSON response from SilverBullet API: ''
                                  @ errorText error)), st3))))"

definition getFullFileListingAPI :: "env \<Rightarrow> state \<Rightarrow> (thrown + SBFile list) \<times> state" where
  "getFullFileListingAPI e st =
     (let url = indexUrl e in
      case fetch e (Get url) st of
        (Inl error, st1) \<Rightarrow> (Inl error, st1)
      | (Inr resp, st1) \<Rightarrow>
          if \<not> ok resp
          then (Inl (Error (''Failed to get file listing: '' @ showNat (status resp) @ '' ''
                            @ statusText resp)), st1)
          else
            (case body_json resp of
               Inl error \<Rightarrow> (Inl error, st1)
             | Inr files \<Rightarrow> (Inr (filter (\<lambda>f. endsWith (sb_name f) ''.md'') files), st1)))"

definition readNoteAPI :: "env \<Rightarrow> string \<Rightarrow> state \<Rightarrow> (thrown + string) \<times> state" where
  "readNoteAPI e filename st =
     (let url = noteUrl e filename in
      case fetch e (Get url) st of
        (Inl error, st1) \<Rightarrow>
          handleFetchError url error
            (consoleError (''[readNoteAPI] Fetch failed for '' @ filename @ '':'') (Some error) st1)
      | (Inr resp, st1) \<Rightarrow>
          if \<not> ok resp then handleResponseError url resp (''to read note '' @ filename) st1
          else
            (case body_text resp of
               Inr content \<Rightarrow> (Inr content, st1)
             | Inl error \<Rightarrow>
                 (Inl (Error (''Failed to read text content for note '' @ filename @ '': ''
                              @ errorText error)),
                  consoleError (''[readNoteAPI] Failed to read text content for '' @ filename @ '':'')
                    (Some error) st1)))"

definition writeNoteAPI :: "env \<Rightarrow> string \<Rightarrow> string \<Rightarrow> state \<Rightarrow> (thrown + unit) \<times> state" where
  "writeNoteAPI e filename content st =
     (let url = noteUrl e filename in
      case fetch e (Put url content) st of
        (Inl error, st1) \<Rightarrow>
          handleFetchError url error
            (consoleError (''[writeNoteAPI] Fetch failed for '' @ filename @ '':'') (Some error) st1)
      | (Inr resp, st1) \<Rightarrow>
          if \<not> ok resp then handleResponseError url resp (''to write note '' @ filename) st1
          else (Inr (), st1))"

section \<open>cache.ts\<close>

text \<open>
  \<open>files.find\<close> is \<^const>\<open>find\<close>: the first entry of the listing with this name.
  Every name of the listing ends in \<open>.md\<close>, so a looked-up key is never a property
  inherited from \<open>Object.prototype\<close> and \<open>contentCache[filename]\<close> is the map lookup.
\<close>

definition getCachedNoteContent ::
  "env \<Rightarrow> string \<Rightarrow> bool \<Rightarrow> state \<Rightarrow> (thrown + string) \<times> state" where
  "getCachedNoteContent e filename enableCaching st =
     (if \<not> enableCaching then readNoteAPI e filename st
      else
        case getFullFileListingAPI e st of
          (Inl error, st1) \<Rightarrow> (Inl error, st1)
        | (Inr files, st1) \<Rightarrow>
            (case find (\<lambda>f. sb_name f = filename) files of
               None \<Rightarrow> (Inl (Error (''Note '' @ filename @ '' not found'')), st1)
             | Some noteInfo \<Rightarrow>
                 (case (case contentCache st1 filename of
                          None \<Rightarrow> None
                        | Some cached \<Rightarrow>
                            if ce_lastModified cached \<ge> sb_lastModified noteInfo
                            then Some (ce_content cached) else None) of
                    Some cachedContent \<Rightarrow> (Inr cachedContent, st1)
                  | None \<Rightarrow>
                      (case readNoteAPI e filename st1 of
                         (Inl error, st2) \<Rightarrow> (Inl error, st2)
                       | (Inr content, st2) \<Rightarrow>
                           (Inr content,
                            st2\<lparr>contentCache := (contentCache st2)(filename \<mapsto>
                                  \<lparr>ce_content = content,
                                   ce_lastModified = sb_lastModified noteInfo\<rparr>)\<rparr>)))))"

section \<open>Strings, arrays and regular expressions of the platform\<close>

text \<open>
  Strings are lists of ASCII characters. \<open>toUpperCase\<close>, \<open>toLowerCase\<close> and the
  case folding of the \<open>i\<close> flag change the 26 letters only.
\<close>

definition toUpperChar :: "char \<Rightarrow> char" where
  "toUpperChar c =
     (case map_of (zip ''abcdefghijklmnopqrstuvwxyz'' ''ABCDEFGHIJKLMNOPQRSTUVWXYZ'') c of
        Some u \<Rightarrow> u | None \<Rightarrow> c)"

definition toLowerChar :: "char \<Rightarrow> char" where
  "toLowerChar c =
     (case map_of (zip ''ABCDEFGHIJKLMNOPQRSTUVWXYZ'' ''abcdefghijklmnopqrstuvwxyz'') c of
        Some l \<Rightarrow> l | None \<Rightarrow> c)"

definition toLowerCase :: "string \<Rightarrow> string" where
  "toLowerCase s = map toLowerChar s"

text \<open>\<^verbatim>\<open>s.includes(sub)\<close>\<close>

fun includesStr :: "string \<Rightarrow> string \<Rightarrow> bool" where
  "includesStr [] sub = (sub = [])"
| "includesStr (c # cs) sub = (take (length sub) (c # cs) = sub \<or> includesStr cs sub)"

text \<open>\<^verbatim>\<open>s.split('\n')\<close>: the empty string splits into one empty line.\<close>

fun splitLines :: "string \<Rightarrow> string list" where
  "splitLines [] = [[]]"
| "splitLines (c # cs) =
     (if c = CHR 0x0A then [] # splitLines cs
      else (case splitLines cs of
              [] \<Rightarrow> [[c]]
            | l # ls \<Rightarrow> (c # l) # ls))"

text \<open>\<^verbatim>\<open>lines.join('\n')\<close>\<close>

fun joinLines :: "string list \<Rightarrow> string" where
  "joinLines [] = []"
| "joinLines [l] = l"
| "joinLines (l # m # ls) = l @ [CHR 0x0A] @ joinLines (m # ls)"

text \<open>\<^verbatim>\<open>s.trim()\<close>, on the ASCII white space (tab, line feed, vertical tab, form feed,
  carriage return, space).\<close>

definition isWhiteSpace :: "char \<Rightarrow> bool" where
  "isWhiteSpace c = (c \<in> set [CHR 0x09, CHR 0x0A, CHR 0x0B, CHR 0x0C, CHR 0x0D, CHR 0x20])"

definition trim :: "string \<Rightarrow> string" where
  "trim s = rev (dropWhile isWhiteSpace (rev (dropWhile isWhiteSpace s)))"

text \<open>
  \<^verbatim>\<open>xs.slice(start, end)\<close> on integer arguments: a negative index counts from the
  end, both indices are clamped to the array, and an end before the start gives the
  empty array.
\<close>

definition js_slice :: "'a list \<Rightarrow> int \<Rightarrow> int \<Rightarrow> 'a list" where
  "js_slice xs start end' =
     (let len = int (length xs);
          k = (if start < 0 then max (len + start) 0 else min start len);
          final = (if end' < 0 then max (len + end') 0 else min end' len)
      in take (nat (max (final - k) 0)) (drop (nat k) xs))"

text \<open>
  Regular expressions. The character class of the source's escaping step,
  \<^verbatim>\<open>/[.*+?^${}()|[\]\\]/g\<close>, and the replacement \<^verbatim>\<open>'\\$&'\<close>, which puts one
  backslash before each character of the class.
\<close>

definition escapeClass :: "char list" where
  "escapeClass = ''.*+?^${}()|[]'' @ [CHR 0x5C]"

definition escapeRegExp :: "string \<Rightarrow> string" where
  "escapeRegExp q = concat (map (\<lambda>c. if c \<in> set escapeClass then [CHR 0x5C, c] else [c]) q)"

text \<open>
  Modelled from ECMAScript, the \<open>RegExp\<close> built-in not being code of the repository.
  \<open>SyntaxCharacter\<close> is one of \<^verbatim>\<open>^ $ \ . * + ? ( ) [ ] { } |\<close>. A pattern made only
  of pattern characters (any character that is not a syntax character) and of identity
  escapes of syntax characters (a backslash followed by a syntax character) is valid
  and matches the text it spells; \<open>literalPattern\<close> recognises these patterns and
  returns that text. Every other pattern is left to the engine of the environment:
  \<open>regexError\<close> gives the \<open>SyntaxError\<close> thrown by \<open>new RegExp\<close>, if any, and
  \<open>regexCount\<close> the number of matches that \<open>matchAll\<close> enumerates.
\<close>

definition syntaxCharacters :: "char list" where
  "syntaxCharacters = ''^$'' @ [CHR 0x5C] @ ''.*+?()[]{}|''"

fun literalPattern :: "string \<Rightarrow> string option" where
  "literalPattern [] = Some []"
| "literalPattern [c] = (if c \<in> set syntaxCharacters then None else Some [c])"
| "literalPattern (c # d # ds) =
     (if c = CHR 0x5C
      then (if d \<in> set syntaxCharacters then map_option (Cons d) (literalPattern ds) else None)
      else if c \<in> set syntaxCharacters then None
      else map_option (Cons c) (literalPattern (d # ds)))"

text \<open>A compiled expression: the text it spells or the pattern handed to the engine,
  with the \<open>i\<close> flag. The \<open>g\<close> flag is always set.\<close>

datatype regexp = Literal string bool | Native string bool

definition newRegExp :: "env \<Rightarrow> string \<Rightarrow> bool \<Rightarrow> thrown + regexp" where
  "newRegExp e pattern ignoreCase =
     (case literalPattern pattern of
        Some lit \<Rightarrow> Inr (Literal lit ignoreCase)
      | None \<Rightarrow>
          (case regexError e pattern of
             Some error \<Rightarrow> Inl error
           | None \<Rightarrow> Inr (Native pattern ignoreCase)))"

text \<open>
  The matches of a literal text that a global scan enumerates: the leftmost occurrence,
  then the leftmost one after its end, and so on; the empty text matches once at every
  position, the end included.
\<close>

fun occurrences :: "string \<Rightarrow> string \<Rightarrow> nat" where
  "occurrences lit [] = (if lit = [] then 1 else 0)"
| "occurrences lit (c # cs) =
     (if lit = [] then 1 + occurrences lit cs
      else if take (length lit) (c # cs) = lit
      then 1 + occurrences lit (drop (length lit - 1) cs)
      else occurrences lit cs)"

text \<open>\<^verbatim>\<open>[...s.matchAll(regex)].length\<close>\<close>

fun matchAllCount :: "env \<Rightarrow> regexp \<Rightarrow> string \<Rightarrow> nat" where
  "matchAllCount e (Literal lit ignoreCase) s =
     (if ignoreCase then occurrences (map toUpperChar lit) (map toUpperChar s)
      else occurrences lit s)"
| "matchAllCount e (Native pattern ignoreCase) s = regexCount e pattern ignoreCase s"

section \<open>mcp-server.ts: the tools\<close>

text \<open>What a tool returns: \<^verbatim>\<open>{ content: [{ type: 'text', text }], isError }\<close>.\<close>

record tool_result =
  tr_text :: string
  tr_isError :: bool

text \<open>An optional string argument that is truthy: present and not empty.\<close>

fun truthy :: "string option \<Rightarrow> string option" where
  "truthy None = None"
| "truthy (Some s) = (if s = [] then None else Some s)"

subsection \<open>search-notes\<close>

datatype match_type = Title | Content

record SearchMatch =
  sm_type :: match_type
  sm_line :: nat
  sm_content :: string
  sm_matchCount :: nat
  sm_context :: "string option"
  sm_startLine :: "int option"
  sm_endLine :: "int option"

record SearchResult =
  sr_filename :: string
  sr_permission :: perm
  sr_matches :: "SearchMatch list"
  sr_score :: nat

datatype search_type = SearchContent | SearchTitle | SearchBoth

text \<open>The arguments of the tool; the numbers are integers.\<close>

record search_args =
  query :: string
  searchType :: search_type
  caseSensitive :: bool
  maxResults :: int
  page :: int
  contextLines :: int
  concise :: bool
  enableCaching :: bool

text \<open>
  The compilation of the query: \<open>flags\<close> is \<open>g\<close> or \<open>gi\<close>; when \<open>new RegExp\<close>
  throws, the escaped query is compiled instead and \<open>regexInvalidFallback\<close> is set. An
  error thrown by the second compilation leaves the handler's inner \<open>try\<close>.
\<close>

definition compileSearchRegex :: "env \<Rightarrow> string \<Rightarrow> bool \<Rightarrow> thrown + regexp \<times> bool" where
  "compileSearchRegex e q caseSens =
     (case newRegExp e q (\<not> caseSens) of
        Inr searchRegex \<Rightarrow> Inr (searchRegex, False)
      | Inl error \<Rightarrow>
          (case newRegExp e (escapeRegExp q) (\<not> caseSens) of
             Inr searchRegex \<Rightarrow> Inr (searchRegex, True)
           | Inl error2 \<Rightarrow> Inl error2))"

definition titleMatches :: "env \<Rightarrow> search_args \<Rightarrow> regexp \<Rightarrow> NoteInfo \<Rightarrow> SearchMatch list" where
  "titleMatches e a searchRegex note =
     (if searchType a = SearchTitle \<or> searchType a = SearchBoth
      then (let n = matchAllCount e searchRegex (ni_name note) in
            if n > 0
            then [\<lparr>sm_type = Title, sm_line = 0, sm_content = ni_name note, sm_matchCount = n,
                   sm_context = None, sm_startLine = None, sm_endLine = None\<rparr>]
            else [])
      else [])"

text \<open>The body of \<open>lines.forEach\<close> at one index: no match or one match.\<close>

definition lineMatch :: "env \<Rightarrow> search_args \<Rightarrow> regexp \<Rightarrow> string list \<Rightarrow> nat \<Rightarrow> SearchMatch list" where
  "lineMatch e a searchRegex lines lineIndex =
     (let line = lines ! lineIndex;
          n = matchAllCount e searchRegex line;
          startLine = max 0 (int lineIndex - contextLines a);
          endLine = min (int (length lines) - 1) (int lineIndex + contextLines a)
      in if n > 0
         then [\<lparr>sm_type = Content,
                sm_line = lineIndex + 1,
                sm_content = trim line,
                sm_matchCount = n,
                sm_context = Some (if \<not> concise a \<and> contextLines a > 0
                                   then joinLines (js_slice lines startLine (endLine + 1))
                                   else []),
                sm_startLine = (if contextLines a > 0 then Some (startLine + 1) else None),
                sm_endLine = (if contextLines a > 0 then Some (endLine + 1) else None)\<rparr>]
         else [])"

definition contentMatches :: "env \<Rightarrow> search_args \<Rightarrow> regexp \<Rightarrow> string \<Rightarrow> SearchMatch list" where
  "contentMatches e a searchRegex content =
     (let lines = splitLines content
      in concat (map (lineMatch e a searchRegex lines) [0..<length lines]))"

text \<open>
  One turn of the loop over the notes: the title matches, then the content matches
  inside their own \<open>try\<close>, then the result with its score if there is any match.
\<close>

definition searchNote ::
  "env \<Rightarrow> search_args \<Rightarrow> regexp \<Rightarrow> NoteInfo \<Rightarrow> state \<Rightarrow> SearchResult list \<times> state" where
  "searchNote e a searchRegex note st =
     (let fromTitle = titleMatches e a searchRegex note;
          (fromContent, st') =
             (if searchType a = SearchContent \<or> searchType a = SearchBoth
              then (case getCachedNoteContent e (ni_name note) (enableCaching a) st of
                      (Inr content, st1) \<Rightarrow> (contentMatches e a searchRegex content, st1)
                    | (Inl error, st1) \<Rightarrow>
                        ([], consoleError (''[MCP Tool: search-notes] Failed to read note ''
                                           @ ni_name note @ '':'') (Some error) st1))
              else ([], st));
          matches = fromTitle @ fromContent
      in (if length matches > 0
          then [\<lparr>sr_filename = ni_name note, sr_permission = ni_perm note,
                 sr_matches = matches, sr_score = sum_list (map sm_matchCount matches)\<rparr>]
          else [],
          st'))"

fun searchLoop ::
  "env \<Rightarrow> search_args \<Rightarrow> regexp \<Rightarrow> NoteInfo list \<Rightarrow> state \<Rightarrow> SearchResult list \<times> state" where
  "searchLoop e a searchRegex [] st = ([], st)"
| "searchLoop e a searchRegex (note # notes) st =
     (let (found, st1) = searchNote e a searchRegex note st;
          (rest, st2) = searchLoop e a searchRegex notes st1
      in (found @ rest, st2))"

text \<open>
  \<^verbatim>\<open>searchResults.sort((a, b) => b.score - a.score)\<close>. \<open>Array.prototype.sort\<close> is
  stable, so the outcome is the descending order of the scores with equal scores in
  the order of insertion, which is what the stable insertion sort on the negated score
  computes.
\<close>

definition sortByScore :: "SearchResult list \<Rightarrow> SearchResult list" where
  "sortByScore rs = sort_key (\<lambda>r. - int (sr_score r)) rs"

text \<open>\<^verbatim>\<open>Math.ceil(totalResults / maxResults)\<close>; \<open>None\<close> stands for the quotients by
  zero, which are not finite.\<close>

definition totalPagesOf :: "nat \<Rightarrow> int \<Rightarrow> int option" where
  "totalPagesOf totalResults maxRes =
     (if maxRes = 0 then None else Some (- ((- int totalResults) div maxRes)))"

definition paginate :: "'a list \<Rightarrow> int \<Rightarrow> int \<Rightarrow> 'a list" where
  "paginate searchResults maxRes pg =
     (let totalResults = int (length searchResults);
          startIndex = (pg - 1) * maxRes;
          endIndex = min (startIndex + maxRes) totalResults
      in js_slice searchResults startIndex endIndex)"

text \<open>
  The values from which the handler renders its text: the fallback notice, the sorted
  results, the page count, the index of the page's first result and the page. The
  rendering itself is not modelled.
\<close>

record search_output =
  so_regexInvalidFallback :: bool
  so_searchResults :: "SearchResult list"
  so_totalPages :: "int option"
  so_startIndex :: int
  so_paginatedResults :: "SearchResult list"

datatype search_reply =
    SearchFailed string
  | NoMatches string
  | SearchResults search_output

definition searchFailure :: "thrown \<Rightarrow> state \<Rightarrow> search_reply \<times> state" where
  "searchFailure error st =
     (SearchFailed (''Failed to search notes: '' @ messageOrUnknown error),
      consoleError ''[MCP Tool: search-notes] Error:'' (Some error) st)"

text \<open>
  The handler after the compilation of the query: the loop over the notes, the sort, the
  page.
\<close>

definition searchWith ::
  "env \<Rightarrow> search_args \<Rightarrow> regexp \<Rightarrow> bool \<Rightarrow> NoteInfo list \<Rightarrow> state \<Rightarrow> search_reply \<times> state" where
  "searchWith e a searchRegex regexInvalidFallback notes st1 =
     (let (found, st2) = searchLoop e a searchRegex notes st1;
          searchResults = sortByScore found
      in if length searchResults = 0
         then (NoMatches (''No matches found for '' @ [CHR 0x22] @ query a @ [CHR 0x22]
                          @ '' in ''
                          @ (case searchType a of
                               SearchBoth \<Rightarrow> ''titles or content''
                             | SearchContent \<Rightarrow> ''content''
                             | SearchTitle \<Rightarrow> ''title'') @ ''.''), st2)
         else (SearchResults
                 \<lparr>so_regexInvalidFallback = regexInvalidFallback,
                  so_searchResults = searchResults,
                  so_totalPages = totalPagesOf (length searchResults) (maxResults a),
                  so_startIndex = (page a - 1) * maxResults a,
                  so_paginatedResults = paginate searchResults (maxResults a) (page a)\<rparr>,
               st2))"

definition search_notes :: "env \<Rightarrow> search_args \<Rightarrow> state \<Rightarrow> search_reply \<times> state" where
  "search_notes e a st =
     (case listNotesAPI e st of
        (Inl error, st1) \<Rightarrow> searchFailure error st1
      | (Inr notes, st1) \<Rightarrow>
          (case compileSearchRegex e (query a) (caseSensitive a) of
             Inl error \<Rightarrow> searchFailure error st1
           | Inr (searchRegex, regexInvalidFallback) \<Rightarrow>
               searchWith e a searchRegex regexInvalidFallback notes st1))"

text \<open>The sorted results of a reply (none when the reply carries no result).\<close>

fun repliedResults :: "search_reply \<Rightarrow> SearchResult list" where
  "repliedResults (SearchResults out) = so_searchResults out"
| "repliedResults (NoMatches msg) = []"
| "repliedResults (SearchFailed msg) = []"

subsection \<open>list-notes with its content filter\<close>

definition regexTest :: "env \<Rightarrow> regexp \<Rightarrow> string \<Rightarrow> bool" where
  "regexTest e regex s = (matchAllCount e regex s > 0)"

fun contentFilter :: "env \<Rightarrow> string \<Rightarrow> NoteInfo list \<Rightarrow> state \<Rightarrow> NoteInfo list \<times> state" where
  "contentFilter e contentSearch [] st = ([], st)"
| "contentFilter e contentSearch (note # notes) st =
     (case getCachedNoteContent e (ni_name note) True st of
        (Inr content, st1) \<Rightarrow>
          (let (rest, st2) = contentFilter e contentSearch notes st1
           in (if includesStr (toLowerCase content) (toLowerCase contentSearch)
               then note # rest else rest, st2))
      | (Inl error, st1) \<Rightarrow>
          contentFilter e contentSearch notes
            (consoleError (''[MCP Tool: list-notes] Failed to read note '' @ ni_name note @ '':'')
               (Some error) st1))"

definition listFailure :: "thrown \<Rightarrow> state \<Rightarrow> tool_result \<times> state" where
  "listFailure error st =
     (\<lparr>tr_text = ''Failed to list notes: '' @ messageOrUnknown error, tr_isError = True\<rparr>,
      consoleError ''[MCP Tool: list-notes] Error:'' (Some error) st)"

text \<open>\<^verbatim>\<open>parts.join(sep)\<close>\<close>

fun joinWith :: "string \<Rightarrow> string list \<Rightarrow> string" where
  "joinWith sep [] = []"
| "joinWith sep [l] = l"
| "joinWith sep (l # m # ls) = l @ sep @ joinWith sep (m # ls)"

definition listText ::
  "string option \<Rightarrow> perm option \<Rightarrow> string option \<Rightarrow> NoteInfo list \<Rightarrow> string" where
  "listText namePattern permission contentSearch notes =
     (let notesList =
            joinWith [CHR 0x0A]
              (map (\<lambda>note. ''- '' @ ni_name note @ '' (''
                       @ (if ni_perm note = rw then ''read-write'' else ''read-only'') @ '')'') notes);
          filterSummary =
            (case truthy namePattern of
               Some p \<Rightarrow> [''name pattern: '' @ [CHR 0x22] @ p @ [CHR 0x22]] | None \<Rightarrow> [])
            @ (case permission of
                 Some rw \<Rightarrow> [''permission: rw''] | Some ro \<Rightarrow> [''permission: ro''] | None \<Rightarrow> [])
            @ (case truthy contentSearch of
                 Some c \<Rightarrow> [''content search: '' @ [CHR 0x22] @ c @ [CHR 0x22]] | None \<Rightarrow> []);
          headerText =
            (if length filterSummary > 0
             then ''Notes matching filters ('' @ joinWith '', '' filterSummary @ ''):''
             else ''Available notes:'')
      in headerText @ [CHR 0x0A]
         @ (if notesList = [] then ''No notes found matching the specified criteria.''
            else notesList))"

definition list_notes ::
  "env \<Rightarrow> string option \<Rightarrow> perm option \<Rightarrow> string option \<Rightarrow> state \<Rightarrow> tool_result \<times> state" where
  "list_notes e namePattern permission contentSearch st =
     (case listNotesAPI e st of
        (Inl error, st1) \<Rightarrow> listFailure error st1
      | (Inr listed, st1) \<Rightarrow>
          (case (case truthy namePattern of
                   None \<Rightarrow> Inr listed
                 | Some p \<Rightarrow>
                     (case newRegExp e p True of
                        Inl error \<Rightarrow> Inl error
                      | Inr regex \<Rightarrow> Inr (filter (\<lambda>note. regexTest e regex (ni_name note)) listed))) of
             Inl error \<Rightarrow> listFailure error st1
           | Inr byName \<Rightarrow>
               (let byPerm = (case permission of
                                None \<Rightarrow> byName
                              | Some p \<Rightarrow> filter (\<lambda>note. ni_perm note = p) byName);
                    (notes, st2) = (case truthy contentSearch of
                                      None \<Rightarrow> (byPerm, st1)
                                    | Some c \<Rightarrow> contentFilter e c byPerm st1)
                in (\<lparr>tr_text = listText namePattern permission contentSearch notes,
                     tr_isError = False\<rparr>, st2))))"

subsection \<open>create-note\<close>

definition create_note ::
  "env \<Rightarrow> string \<Rightarrow> string \<Rightarrow> bool \<Rightarrow> state \<Rightarrow> tool_result \<times> state" where
  "create_note e filename content overwrite st =
     (if \<not> endsWith filename ''.md''
      then (\<lparr>tr_text = ''Filename must end with .md extension'', tr_isError = True\<rparr>, st)
      else
        case (if \<not> overwrite
              then (case readNoteAPI e filename st of
                      (Inr existing, st1) \<Rightarrow> (True, st1)
                    | (Inl error, st1) \<Rightarrow> (False, st1))
              else (False, st)) of
          (True, st1) \<Rightarrow>
            (\<lparr>tr_text = ''Note '' @ filename @ '' already exists. Use overwrite=true to replace it.'',
              tr_isError = True\<rparr>, st1)
        | (False, st1) \<Rightarrow>
            (case writeNoteAPI e filename content st1 of
               (Inr u, st2) \<Rightarrow>
                 (\<lparr>tr_text = ''Successfully '' @ (if overwrite then ''created/updated'' else ''created'')
                              @ '' note: '' @ filename,
                   tr_isError = False\<rparr>, st2)
             | (Inl error, st2) \<Rightarrow>
                 (\<lparr>tr_text = ''Failed to create note: '' @ messageOrUnknown error, tr_isError = True\<rparr>,
                  consoleError (''[MCP Tool: create-note] Error creating note '' @ filename @ '':'')
                    (Some error) st2)))"

section \<open>server.ts: the sessions\<close>

text \<open>
  The transports and the handlers (\<open>McpServer\<close> objects) are objects of the SDK,
  identified here by the number of the POST request that created them: that request
  creates \<open>Transport k\<close> and \<open>McpServer k\<close> together.
\<close>

datatype transport = Transport nat

datatype mcpServer = McpServer nat

text \<open>
  \<open>transports\<close> and \<open>mcpServers\<close> are object literals, so reading \<open>transports[id]\<close>
  finds an own property, or a property inherited from \<open>Object.prototype\<close> (a function
  or an object, which is truthy but is no transport), or \<open>undefined\<close>.
\<close>

datatype 'a property = Own 'a | Inherited | Undefined

definition objectPrototypeKeys :: "string list" where
  "objectPrototypeKeys =
     [''constructor'', ''__proto__'', ''hasOwnProperty'', ''isPrototypeOf'',
      ''propertyIsEnumerable'', ''toLocaleString'', ''toString'', ''valueOf'',
      ''__defineGetter__'', ''__defineSetter__'', ''__lookupGetter__'', ''__lookupSetter__'']"

definition js_get :: "(string \<rightharpoonup> 'a) \<Rightarrow> string \<Rightarrow> 'a property" where
  "js_get m key =
     (case m key of
        Some v \<Rightarrow> Own v
      | None \<Rightarrow> if key \<in> set objectPrototypeKeys then Inherited else Undefined)"

text \<open>What the process does that is visible from outside the two maps.\<close>

datatype effect =
    ServerClose mcpServer
  | TransportClose transport
  | Console console_entry
  | Send nat string
  | End

text \<open>
  The state of server.ts: the two maps, the \<open>sessionId\<close> property of each transport
  created so far (unset until the transport is initialised), the number of pairs
  created, and the effects so far.
\<close>

record sessions =
  transports :: "string \<rightharpoonup> transport"
  mcpServers :: "string \<rightharpoonup> mcpServer"
  sessionIdOf :: "nat \<rightharpoonup> string"
  created :: nat
  effects :: "effect list"

text \<open>
  What the SDK does with one request, which the bridge does not decide:
  whether \<open>mcpServer.connect\<close> rejects; whether the transport accepts the request as
  an initialisation, which makes it take its session id from \<open>sessionIdGenerator\<close> and
  call \<open>onsessioninitialized\<close>; whether the transport closes while it handles the
  request, which makes it call \<open>onclose\<close>; whether \<open>handleRequest\<close> rejects; and the
  state of the HTTP response when \<open>handleRequest\<close> is over.
\<close>

record sdk =
  connectThrows :: "thrown option"
  initializes :: bool
  closes :: bool
  handleThrows :: "thrown option"
  headersSent :: bool
  writableEnded :: bool

datatype completion = Completed | Rejected thrown

definition effect :: "effect \<Rightarrow> sessions \<Rightarrow> sessions" where
  "effect x s = s\<lparr>effects := effects s @ [x]\<rparr>"

text \<open>The callback \<open>onsessioninitialized\<close> of the pair \<open>k\<close>.\<close>

definition onsessioninitialized :: "nat \<Rightarrow> string \<Rightarrow> sessions \<Rightarrow> sessions" where
  "onsessioninitialized k sId s =
     s\<lparr>transports := (transports s)(sId \<mapsto> Transport k),
       mcpServers := (mcpServers s)(sId \<mapsto> McpServer k)\<rparr>"

text \<open>The callback \<open>transport.onclose\<close> of the pair \<open>k\<close>.\<close>

definition onclose :: "nat \<Rightarrow> sessions \<Rightarrow> sessions" where
  "onclose k s =
     (case truthy (sessionIdOf s k) of
        None \<Rightarrow> s
      | Some sid \<Rightarrow>
          effect (ServerClose (McpServer k))
            (s\<lparr>transports := (transports s)(sid := None),
               mcpServers := (mcpServers s)(sid := None)\<rparr>))"

text \<open>
  \<open>transport.handleRequest\<close> on the transport \<open>k\<close>. Only a transport that has no
  session id yet initialises; \<open>newSessionId\<close> is what its \<open>sessionIdGenerator\<close>
  returns, and the callback is called when that id is truthy.
\<close>

definition handleRequest :: "sdk \<Rightarrow> nat \<Rightarrow> string \<Rightarrow> sessions \<Rightarrow> thrown option \<times> sessions" where
  "handleRequest b k newSessionId s =
     (let s1 = (if initializes b \<and> sessionIdOf s k = None
                then (let s' = s\<lparr>sessionIdOf := (sessionIdOf s)(k \<mapsto> newSessionId)\<rparr>
                      in if newSessionId = [] then s' else onsessioninitialized k newSessionId s')
                else s);
          s2 = (if closes b then onclose k s1 else s1)
      in (handleThrows b, s2))"

definition notAFunction :: "string \<Rightarrow> thrown" where
  "notAFunction what = Error (what @ '' is not a function'')"

text \<open>\<open>app.post('/mcp')\<close>; \<open>newSessionId\<close> is the result of \<open>randomUUID()\<close>.\<close>

definition post_mcp ::
  "sdk \<Rightarrow> string option \<Rightarrow> string \<Rightarrow> sessions \<Rightarrow> completion \<times> sessions" where
  "post_mcp b sessionId newSessionId s =
     (let existing =
            (case truthy sessionId of
               None \<Rightarrow> None
             | Some sid \<Rightarrow>
                 (case (js_get (transports s) sid, js_get (mcpServers s) sid) of
                    (Undefined, m) \<Rightarrow> None
                  | (t, Undefined) \<Rightarrow> None
                  | (t, m) \<Rightarrow> Some t));
          (connected, s1) =
            (case existing of
               Some t \<Rightarrow> (Inr t, s)
             | None \<Rightarrow>
                 (let k = created s; s' = s\<lparr>created := Suc k\<rparr>
                  in case connectThrows b of
                       Some error \<Rightarrow> (Inl error, s')
                     | None \<Rightarrow> (Inr (Own (Transport k)), s')))
      in case connected of
           Inl error \<Rightarrow> (Rejected error, s1)
         | Inr t \<Rightarrow>
             (let (thrown, s2, sent) =
                    (case t of
                       Own (Transport k) \<Rightarrow>
                         (let (r, s') = handleRequest b k newSessionId s1
                          in (r, s', headersSent b))
                     | Inherited \<Rightarrow> (Some (notAFunction ''transport.handleRequest''), s1, False)
                     | Undefined \<Rightarrow> (Some (notAFunction ''transport.handleRequest''), s1, False))
              in case thrown of
                   None \<Rightarrow> (Completed, s2)
                 | Some error \<Rightarrow>
                     (let s3 = effect (Console (ConsoleError ''[POST /mcp] Error handling MCP request:''
                                                  (Some error))) s2
                      in (Completed,
                          if \<not> sent
                          then effect (Send 500 ''Internal server error during request handling.'') s3
                          else s3))))"

text \<open>\<open>handleSessionRequest\<close>, which serves \<open>app.get('/mcp')\<close>.\<close>

definition handleSessionRequest :: "sdk \<Rightarrow> string option \<Rightarrow> sessions \<Rightarrow> completion \<times> sessions" where
  "handleSessionRequest b sessionId s =
     (case (case truthy sessionId of
              None \<Rightarrow> Undefined
            | Some sid \<Rightarrow> js_get (transports s) sid) of
        Undefined \<Rightarrow> (Completed, effect (Send 400 ''Invalid or missing session ID'') s)
      | t \<Rightarrow>
          (let (thrown, s2, sent) =
                 (case t of
                    Own (Transport k) \<Rightarrow>
                      (let (r, s') = handleRequest b k [] s in (r, s', headersSent b))
                  | other \<Rightarrow> (Some (notAFunction ''transport.handleRequest''), s, False))
           in case thrown of
                None \<Rightarrow> (Completed, s2)
              | Some error \<Rightarrow>
                  (let s3 = effect (Console (ConsoleError
                                     ''[handleSessionRequest] Error handling session event:''
                                     (Some error))) s2
                   in (Completed,
                       if \<not> sent
                       then effect (Send 500 ''Internal server error during session event handling.'') s3
                       else effect End s3))))"

text \<open>
  \<open>app.delete('/mcp')\<close>. The \<open>finally\<close> block calls \<open>close\<close> on the handler and on
  the transport, which are asynchronous methods of the SDK whose promises are not
  awaited, and deletes both entries. When the looked-up value is an inherited
  property, the call of its \<open>close\<close> throws inside \<open>finally\<close> and the handler ends
  there.
\<close>

definition delete_mcp :: "sdk \<Rightarrow> string option \<Rightarrow> sessions \<Rightarrow> completion \<times> sessions" where
  "delete_mcp b sessionId s =
     (case truthy sessionId of
        None \<Rightarrow> (Completed, effect (Send 400 ''Invalid or missing session ID for DELETE'') s)
      | Some sid \<Rightarrow>
          (case js_get (transports s) sid of
             Undefined \<Rightarrow>
               (Completed, effect (Send 400 ''Invalid or missing session ID for DELETE'') s)
           | t \<Rightarrow>
               (let m = js_get (mcpServers s) sid;
                    (thrown, s1, sent, ended) =
                      (case t of
                         Own (Transport k) \<Rightarrow>
                           (let (r, s') = handleRequest b k [] s
                            in (r, s', headersSent b, writableEnded b))
                       | other \<Rightarrow> (Some (notAFunction ''transport.handleRequest''), s, False, False));
                    (s2, sent2, ended2) =
                      (case thrown of
                         None \<Rightarrow> (s1, sent, ended)
                       | Some error \<Rightarrow>
                           (let s' = effect (Console (ConsoleError
                                               ''[DELETE /mcp] Error during DELETE handling:''
                                               (Some error))) s1
                            in if \<not> sent
                               then (effect (Send 500 ''Internal server error during session termination.'') s',
                                     True, True)
                               else (s', sent, ended)))
                in case m of
                     Inherited \<Rightarrow> (Rejected (notAFunction ''mcpServer.close''), s2)
                   | other \<Rightarrow>
                       (let s3 = (case m of Own srv \<Rightarrow> effect (ServerClose srv) s2 | u \<Rightarrow> s2)
                        in case t of
                             Own tr \<Rightarrow>
                               (let s4 = effect (TransportClose tr) s3;
                                    s5 = s4\<lparr>transports := (transports s4)(sid := None),
                                            mcpServers := (mcpServers s4)(sid := None)\<rparr>
                                in (Completed,
                                    if \<not> sent2 then effect (Send 204 []) s5
                                    else if \<not> ended2 then effect End s5
                                    else s5))
                           | u \<Rightarrow> (Rejected (notAFunction ''transport.close''), s3)))))"

text \<open>
  The operations on the sessions: the three routes, and a transport that reports its
  closure, on which the SDK calls its \<open>onclose\<close>.
\<close>

datatype operation =
    PostMcp sdk "string option" string
  | GetMcp sdk "string option"
  | DeleteMcp sdk "string option"
  | TransportClosed nat

fun step :: "sessions \<Rightarrow> operation \<Rightarrow> sessions" where
  "step s (PostMcp b sessionId newSessionId) = snd (post_mcp b sessionId newSessionId s)"
| "step s (GetMcp b sessionId) = snd (handleSessionRequest b sessionId s)"
| "step s (DeleteMcp b sessionId) = snd (delete_mcp b sessionId s)"
| "step s (TransportClosed k) = onclose k s"

definition startup :: sessions where
  "startup = \<lparr>transports = Map.empty, mcpServers = Map.empty, sessionIdOf = Map.empty,
              created = 0, effects = []\<rparr>"

definition run :: "operation list \<Rightarrow> sessions" where
  "run ops = foldl step startup ops"

text \<open>
  Two invariants of the sessions. \<open>paired\<close>: an id is mapped to the transport of a
  pair exactly when it is mapped to the handler of the same pair. \<open>fresh\<close>: a pair not
  yet created has no session id, and every registered transport has been created.
\<close>

definition paired :: "sessions \<Rightarrow> bool" where
  "paired s =
     (\<forall>sid k. (transports s sid = Some (Transport k)) = (mcpServers s sid = Some (McpServer k)))"

definition fresh :: "sessions \<Rightarrow> bool" where
  "fresh s =
     ((\<forall>k. created s \<le> k \<longrightarrow> sessionIdOf s k = None)
      \<and> (\<forall>sid k. transports s sid = Some (Transport k) \<longrightarrow> k < created s))"

section \<open>A store for the examples\<close>

definition exampleBase :: string where
  "exampleBase = ''http://silverbullet:3000''"

definition jsonResponse :: "SBFile list \<Rightarrow> response" where
  "jsonResponse files =
     \<lparr>status = 200, statusText = ''OK'', body_text = Inr ''[]'', body_json = Inr files\<rparr>"

definition textResponse :: "string \<Rightarrow> response" where
  "textResponse body =
     \<lparr>status = 200, statusText = ''OK'', body_text = Inr body,
      body_json = Inl (Error ''Unexpected token'')\<rparr>"

definition errorResponse :: "nat \<Rightarrow> string \<Rightarrow> response" where
  "errorResponse code reason =
     \<lparr>status = code, statusText = reason, body_text = Inr reason,
      body_json = Inl (Error ''Unexpected token'')\<rparr>"

text \<open>
  A store that does not change: its index, and for each note name what a GET of the
  note gives (404 for the other names); every PUT and DELETE succeeds. The names used
  in the examples are made of unreserved characters, which \<open>encodeURIComponent\<close>
  leaves as they are. Its engine rejects every pattern outside the modelled fragment.
\<close>

definition exampleStore :: "SBFile list \<Rightarrow> (string \<times> (thrown + response)) list \<Rightarrow> env" where
  "exampleStore files notes =
     \<lparr>SB_API_BASE_URL = exampleBase,
      encodeURIComponent = (\<lambda>name. name),
      respond = (\<lambda>earlier req.
         case req of
           Get url \<Rightarrow>
             if url = exampleBase @ ''/index.json'' then Inr (jsonResponse files)
             else (case map_of notes (drop (length exampleBase + 1) url) of
                     Some r \<Rightarrow> r
                   | None \<Rightarrow> Inr (errorResponse 404 ''Not Found''))
         | Put url body \<Rightarrow> Inr (textResponse ''OK'')
         | Delete url \<Rightarrow> Inr (textResponse ''OK'')),
      regexError = (\<lambda>pattern. Some (Error (''Invalid regular expression: /'' @ pattern @ ''/''))),
      regexCount = (\<lambda>pattern ignoreCase s. 0)\<rparr>"

definition fileA :: SBFile where
  "fileA = \<lparr>sb_name = ''a.md'', sb_lastModified = 10, sb_contentType = ''text/markdown'',
            sb_size = 15, sb_perm = rw\<rparr>"

definition bodyA :: string where
  "bodyA = ''Foo bar'' @ [CHR 0x0A] @ ''baz foo''"

definition storeA :: env where
  "storeA = exampleStore [fileA] [(''a.md'', Inr (textResponse bodyA))]"

definition state0 :: state where
  "state0 = \<lparr>requests = [], console = [], contentCache = Map.empty\<rparr>"

definition stateA :: state where
  "stateA = \<lparr>requests = [Get (indexUrl storeA), Get (noteUrl storeA ''a.md'')], console = [],
             contentCache = [''a.md'' \<mapsto> \<lparr>ce_content = bodyA, ce_lastModified = 10\<rparr>]\<rparr>"

definition storeDown :: env where
  "storeDown = (exampleStore [] [])\<lparr>respond := (\<lambda>earlier req. Inl (Error ''connect ECONNREFUSED''))\<rparr>"

definition storeA500 :: env where
  "storeA500 = exampleStore [fileA] [(''a.md'', Inr (errorResponse 500 ''Internal Server Error''))]"

definition error500 :: thrown where
  "error500 = Error (''Failed to read note a.md from SilverBullet API (http://silverbullet:3000/a.md): 500 Internal Server Error'')"

definition fileC :: SBFile where
  "fileC = \<lparr>sb_name = ''c.md'', sb_lastModified = 20, sb_contentType = ''text/markdown'',
            sb_size = 24, sb_perm = ro\<rparr>"

definition bodyC :: string where
  "bodyC = ''f = a(1)'' @ [CHR 0x0A] @ ''none'' @ [CHR 0x0A] @ ''A(2) a(3)''"

definition storeC :: env where
  "storeC = exampleStore [fileC] [(''c.md'', Inr (textResponse bodyC))]"

text \<open>The arguments of search-notes with their declared defaults.\<close>

definition defaultArgs :: "string \<Rightarrow> search_args" where
  "defaultArgs q =
     \<lparr>query = q, searchType = SearchBoth, caseSensitive = False, maxResults = 10, page = 1,
      contextLines = 1, concise = True, enableCaching = True\<rparr>"

text \<open>The content search for \<open>foo\<close>, not case-sensitive, on the store of the note \<open>a.md\<close>.\<close>

definition argsFoo :: search_args where
  "argsFoo = (defaultArgs ''foo'')\<lparr>searchType := SearchContent\<rparr>"

definition resultA :: SearchResult where
  "resultA =
     \<lparr>sr_filename = ''a.md'', sr_permission = rw,
      sr_matches =
        [\<lparr>sm_type = Content, sm_line = 1, sm_content = ''Foo bar'', sm_matchCount = 1,
          sm_context = Some [], sm_startLine = Some 1, sm_endLine = Some 2\<rparr>,
         \<lparr>sm_type = Content, sm_line = 2, sm_content = ''baz foo'', sm_matchCount = 1,
          sm_context = Some [], sm_startLine = Some 1, sm_endLine = Some 2\<rparr>],
      sr_score = 2\<rparr>"

text \<open>
  Two stores that list \<open>b.md\<close> before \<open>a.md\<close>: in the first the read of \<open>b.md\<close>
  fails with the status 500, in the second it succeeds and the body has no \<open>foo\<close>.
\<close>

definition fileB :: SBFile where
  "fileB = \<lparr>sb_name = ''b.md'', sb_lastModified = 30, sb_contentType = ''text/markdown'',
            sb_size = 12, sb_perm = ro\<rparr>"

definition storeFailingB :: env where
  "storeFailingB =
     exampleStore [fileB, fileA]
       [(''a.md'', Inr (textResponse bodyA)),
        (''b.md'', Inr (errorResponse 500 ''Internal Server Error''))]"

definition storeQuietB :: env where
  "storeQuietB =
     exampleStore [fileB, fileA]
       [(''a.md'', Inr (textResponse bodyA)),
        (''b.md'', Inr (textResponse ''nothing here''))]"

definition noteA :: NoteInfo where
  "noteA = \<lparr>ni_name = ''a.md'', ni_perm = rw\<rparr>"

definition noteB :: NoteInfo where
  "noteB = \<lparr>ni_name = ''b.md'', ni_perm = ro\<rparr>"

definition error500B :: thrown where
  "error500B = Error (''Failed to read note b.md from SilverBullet API (http://silverbullet:3000/b.md): 500 Internal Server Error'')"

definition replyA :: search_reply where
  "replyA = SearchResults
     \<lparr>so_regexInvalidFallback = False, so_searchResults = [resultA], so_totalPages = Some 1,
      so_startIndex = 0, so_paginatedResults = [resultA]\<rparr>"

definition listedA :: tool_result where
  "listedA =
     \<lparr>tr_text = ''Notes matching filters (content search: '' @ [CHR 0x22] @ ''foo'' @ [CHR 0x22]
                  @ ''):'' @ [CHR 0x0A] @ ''- a.md (read-write)'',
      tr_isError = False\<rparr>"

text \<open>
  Behaviours of the SDK for the examples: a request that the transport accepts as an
  initialisation; a request that it answers without initialising; a termination whose
  processing throws before anything is sent. \<open>opsOne\<close> opens the session
  \<open>session-1\<close>.
\<close>

definition sdkInit :: sdk where
  "sdkInit = \<lparr>connectThrows = None, initializes = True, closes = False, handleThrows = None,
              headersSent = True, writableEnded = True\<rparr>"

definition sdkNoInit :: sdk where
  "sdkNoInit = \<lparr>connectThrows = None, initializes = False, closes = False, handleThrows = None,
                headersSent = True, writableEnded = True\<rparr>"

definition sdkThrows :: sdk where
  "sdkThrows = \<lparr>connectThrows = None, initializes = False, closes = False,
                handleThrows = Some (Error ''stream closed''),
                headersSent = False, writableEnded = False\<rparr>"

definition opsOne :: "operation list" where
  "opsOne = [PostMcp sdkInit None ''session-1'']"

section \<open>Properties of the content cache\<close>

lemmas example_defs = storeA_def exampleStore_def exampleBase_def jsonResponse_def textResponse_def
  errorResponse_def fileA_def bodyA_def state0_def

lemma readNoteAPI_frame:
  "readNoteAPI e filename st = (r, st1) \<Longrightarrow>
     requests st1 = requests st @ [Get (noteUrl e filename)] \<and> contentCache st1 = contentCache st"
  by (auto simp: readNoteAPI_def Let_def consoleError_def fetch_def handleFetchError_def handleResponseError_def split: sum.splits prod.splits if_splits)

lemma getFullFileListingAPI_frame:
  "getFullFileListingAPI e st = (r, st1) \<Longrightarrow>
     requests st1 = requests st @ [Get (indexUrl e)] \<and> contentCache st1 = contentCache st \<and> console st1 = console st"
  by (auto simp: getFullFileListingAPI_def Let_def fetch_def split: sum.splits prod.splits if_splits)

lemma storeA_listing:
  "getFullFileListingAPI storeA st = (Inr [fileA], st\<lparr>requests := requests st @ [Get (indexUrl storeA)]\<rparr>)"
  by (simp add: getFullFileListingAPI_def fetch_def indexUrl_def ok_def endsWith_def example_defs)

lemma storeA_read:
  "readNoteAPI storeA ''a.md'' st = (Inr bodyA, st\<lparr>requests := requests st @ [Get (noteUrl storeA ''a.md'')]\<rparr>)"
  by (simp add: readNoteAPI_def fetch_def noteUrl_def ok_def example_defs)

lemma find_fileA: "find (\<lambda>f. sb_name f = ''a.md'') [fileA] = Some fileA"
  by (simp add: fileA_def)

text \<open>
  Claim C1. Let the listing fetched by \<open>getCachedNoteContent(name, true)\<close> contain the
  name, with the store's \<open>lastModified\<close>. If the cache holds an entry for the name
  whose \<open>lastModified\<close> is at least the store's, the call returns the cached content,
  its only request is the listing (no body read) and the cache is unchanged. If there is
  no entry or only an older one, and the body read delivers a content, the call issues
  the listing and exactly one body read, stores the entry made of the fresh content and
  the store's \<open>lastModified\<close> under the name, and returns the fresh content.
\<close>

theorem getCachedNoteContent_hit_or_refresh:
  assumes listing: "getFullFileListingAPI e st = (Inr files, st1)"
      and found: "find (\<lambda>f. sb_name f = filename) files = Some noteInfo"
  shows "(\<forall>cached. contentCache st filename = Some cached
             \<and> ce_lastModified cached \<ge> sb_lastModified noteInfo \<longrightarrow>
            getCachedNoteContent e filename True st = (Inr (ce_content cached), st1)
            \<and> requests st1 = requests st @ [Get (indexUrl e)]
            \<and> contentCache st1 = contentCache st)
       \<and> ((\<forall>cached. contentCache st filename = Some cached
             \<longrightarrow> ce_lastModified cached < sb_lastModified noteInfo) \<longrightarrow>
           (\<forall>content st2. readNoteAPI e filename st1 = (Inr content, st2) \<longrightarrow>
              getCachedNoteContent e filename True st =
                (Inr content,
                 st2\<lparr>contentCache := (contentCache st)(filename \<mapsto>
                        \<lparr>ce_content = content, ce_lastModified = sb_lastModified noteInfo\<rparr>)\<rparr>)
              \<and> requests st2 = requests st @ [Get (indexUrl e), Get (noteUrl e filename)]))"
proof (intro conjI allI impI)
  note fr = getFullFileListingAPI_frame [OF listing]
  fix cached
  assume "contentCache st filename = Some cached \<and> ce_lastModified cached \<ge> sb_lastModified noteInfo"
  with fr show "getCachedNoteContent e filename True st = (Inr (ce_content cached), st1)"
    by (simp add: getCachedNoteContent_def listing found)
  from fr show "requests st1 = requests st @ [Get (indexUrl e)]" by simp
  from fr show "contentCache st1 = contentCache st" by simp
next
  note fr = getFullFileListingAPI_frame [OF listing]
  fix content st2
  assume old: "\<forall>cached. contentCache st filename = Some cached \<longrightarrow> ce_lastModified cached < sb_lastModified noteInfo"
    and rd: "readNoteAPI e filename st1 = (Inr content, st2)"
  note fr2 = readNoteAPI_frame [OF rd]
  from old fr have miss: "(case contentCache st filename of None \<Rightarrow> None
        | Some cached \<Rightarrow> if ce_lastModified cached \<ge> sb_lastModified noteInfo
            then Some (ce_content cached) else None) = None"
    by (auto split: option.splits)
  show "getCachedNoteContent e filename True st =
                (Inr content,
                 st2\<lparr>contentCache := (contentCache st)(filename \<mapsto>
                        \<lparr>ce_content = content, ce_lastModified = sb_lastModified noteInfo\<rparr>)\<rparr>)"
    using fr fr2 by (simp add: getCachedNoteContent_def listing found miss rd)
  from fr fr2 show "requests st2 = requests st @ [Get (indexUrl e), Get (noteUrl e filename)]" by simp
qed

text \<open>
  The example of the specification: with the listing \<open>a.md\<close> at \<open>lastModified\<close> 10
  and an empty cache the call performs one listing and one read and caches the content
  with 10; the repeated call performs one listing and no read.
\<close>

theorem getCachedNoteContent_hit_or_refresh_witness:
  "getCachedNoteContent storeA ''a.md'' True state0 = (Inr bodyA, stateA)
   \<and> getCachedNoteContent storeA ''a.md'' True stateA
       = (Inr bodyA, stateA\<lparr>requests := requests stateA @ [Get (indexUrl storeA)]\<rparr>)"
proof
  have "\<forall>cached. contentCache state0 ''a.md'' = Some cached \<longrightarrow>
          ce_lastModified cached < sb_lastModified fileA"
    by (simp add: state0_def)
  with getCachedNoteContent_hit_or_refresh [OF storeA_listing find_fileA, of state0] storeA_read
  have "getCachedNoteContent storeA ''a.md'' True state0 =
          (Inr bodyA,
           state0\<lparr>requests := requests state0 @ [Get (indexUrl storeA)],
                  requests := requests (state0\<lparr>requests := requests state0 @ [Get (indexUrl storeA)]\<rparr>)
                     @ [Get (noteUrl storeA ''a.md'')],
                  contentCache := (contentCache state0)(''a.md'' \<mapsto>
                     \<lparr>ce_content = bodyA, ce_lastModified = sb_lastModified fileA\<rparr>)\<rparr>)"
    by blast
  then show "getCachedNoteContent storeA ''a.md'' True state0 = (Inr bodyA, stateA)"
    by (simp add: state0_def stateA_def fileA_def)
next
  have "contentCache stateA ''a.md'' = Some \<lparr>ce_content = bodyA, ce_lastModified = 10\<rparr>
        \<and> ce_lastModified \<lparr>ce_content = bodyA, ce_lastModified = 10\<rparr> \<ge> sb_lastModified fileA"
    by (simp add: stateA_def fileA_def)
  with getCachedNoteContent_hit_or_refresh [OF storeA_listing find_fileA, of stateA]
  show "getCachedNoteContent storeA ''a.md'' True stateA
       = (Inr bodyA, stateA\<lparr>requests := requests stateA @ [Get (indexUrl storeA)]\<rparr>)"
    by fastforce
qed

text \<open>
  Claim C2. \<open>getCachedNoteContent(name, false)\<close> is the body read: it returns what
  \<open>readNoteAPI\<close> returns (the body the store sends, when the store answers with a
  success status), its only request is the GET of the note (no listing), it leaves the
  cache as it was, and its result does not depend on the cache.
\<close>

theorem getCachedNoteContent_uncached:
  "getCachedNoteContent e filename False st = readNoteAPI e filename st
   \<and> requests (snd (getCachedNoteContent e filename False st))
       = requests st @ [Get (noteUrl e filename)]
   \<and> contentCache (snd (getCachedNoteContent e filename False st)) = contentCache st
   \<and> fst (getCachedNoteContent e filename False (st\<lparr>contentCache := otherCache\<rparr>))
       = fst (getCachedNoteContent e filename False st)
   \<and> (\<forall>resp content. respond e (requests st) (Get (noteUrl e filename)) = Inr resp
          \<and> ok resp \<and> body_text resp = Inr content \<longrightarrow>
        fst (getCachedNoteContent e filename False st) = Inr content)"
proof -
  obtain r st1 where rd: "readNoteAPI e filename st = (r, st1)" by (cases "readNoteAPI e filename st")
  have indep: "fst (readNoteAPI e filename (st\<lparr>contentCache := otherCache\<rparr>)) = fst (readNoteAPI e filename st)"
    by (auto simp: readNoteAPI_def fetch_def Let_def handleFetchError_def handleResponseError_def
             split: sum.splits)
  have fresh: "\<forall>resp content. respond e (requests st) (Get (noteUrl e filename)) = Inr resp
          \<and> ok resp \<and> body_text resp = Inr content \<longrightarrow> fst (readNoteAPI e filename st) = Inr content"
    by (auto simp: readNoteAPI_def fetch_def Let_def)
  from readNoteAPI_frame [OF rd] rd indep fresh show ?thesis
    by (simp add: getCachedNoteContent_def)
qed

theorem getCachedNoteContent_uncached_witness:
  "respond storeA (requests stateA) (Get (noteUrl storeA ''a.md'')) = Inr (textResponse bodyA)
   \<and> ok (textResponse bodyA) \<and> body_text (textResponse bodyA) = Inr bodyA
   \<and> fst (getCachedNoteContent storeA ''a.md'' False stateA) = Inr bodyA
   \<and> requests (snd (getCachedNoteContent storeA ''a.md'' False stateA))
       = requests stateA @ [Get (noteUrl storeA ''a.md'')]
   \<and> contentCache (snd (getCachedNoteContent storeA ''a.md'' False stateA)) = contentCache stateA"
proof -
  have h: "respond storeA (requests stateA) (Get (noteUrl storeA ''a.md'')) = Inr (textResponse bodyA)
     \<and> ok (textResponse bodyA) \<and> body_text (textResponse bodyA) = Inr bodyA"
    by (simp add: noteUrl_def ok_def example_defs)
  with getCachedNoteContent_uncached [of storeA "''a.md''" stateA] show ?thesis by blast
qed

text \<open>
  Claim C3. When the listing does not contain the name,
  \<open>getCachedNoteContent(name, true)\<close> fails with the error \<open>Note <name> not found\<close>,
  its only request is the listing (no body read) and the cache is unchanged. An error
  thrown by the listing, or by the body read (with or without caching), is the error
  of the call, and the cache is unchanged.
\<close>

theorem getCachedNoteContent_errors:
  "(\<forall>files st1. getFullFileListingAPI e st = (Inr files, st1)
        \<and> find (\<lambda>f. sb_name f = filename) files = None \<longrightarrow>
      getCachedNoteContent e filename True st
        = (Inl (Error (''Note '' @ filename @ '' not found'')), st1)
      \<and> requests st1 = requests st @ [Get (indexUrl e)]
      \<and> contentCache st1 = contentCache st)
   \<and> (\<forall>error st1. getFullFileListingAPI e st = (Inl error, st1) \<longrightarrow>
        getCachedNoteContent e filename True st = (Inl error, st1)
        \<and> contentCache st1 = contentCache st)
   \<and> (\<forall>files st1 noteInfo error st2.
        getFullFileListingAPI e st = (Inr files, st1)
        \<and> find (\<lambda>f. sb_name f = filename) files = Some noteInfo
        \<and> (\<forall>cached. contentCache st filename = Some cached
              \<longrightarrow> ce_lastModified cached < sb_lastModified noteInfo)
        \<and> readNoteAPI e filename st1 = (Inl error, st2) \<longrightarrow>
        getCachedNoteContent e filename True st = (Inl error, st2)
        \<and> contentCache st2 = contentCache st)
   \<and> (\<forall>error st1. readNoteAPI e filename st = (Inl error, st1) \<longrightarrow>
        getCachedNoteContent e filename False st = (Inl error, st1)
        \<and> contentCache st1 = contentCache st)"
proof (intro conjI allI impI; (elim conjE)?)
  fix files st1
  assume l: "getFullFileListingAPI e st = (Inr files, st1)"
    and f: "find (\<lambda>f. sb_name f = filename) files = None"
  from getFullFileListingAPI_frame [OF l]
  show "requests st1 = requests st @ [Get (indexUrl e)]" "contentCache st1 = contentCache st"
    by simp_all
  show "getCachedNoteContent e filename True st
        = (Inl (Error (''Note '' @ filename @ '' not found'')), st1)"
    by (simp add: getCachedNoteContent_def l f)
next
  fix error st1
  assume l: "getFullFileListingAPI e st = (Inl error, st1)"
  then show "getCachedNoteContent e filename True st = (Inl error, st1)"
    by (simp add: getCachedNoteContent_def)
  from getFullFileListingAPI_frame [OF l] show "contentCache st1 = contentCache st" by simp
next
  fix files st1 noteInfo error st2
  assume l: "getFullFileListingAPI e st = (Inr files, st1)"
    and f: "find (\<lambda>f. sb_name f = filename) files = Some noteInfo"
    and old: "\<forall>cached. contentCache st filename = Some cached
              \<longrightarrow> ce_lastModified cached < sb_lastModified noteInfo"
    and rd: "readNoteAPI e filename st1 = (Inl error, st2)"
  note fr = getFullFileListingAPI_frame [OF l]
  from old have miss: "(case contentCache st filename of None \<Rightarrow> None
        | Some cached \<Rightarrow> if ce_lastModified cached \<ge> sb_lastModified noteInfo
            then Some (ce_content cached) else None) = None"
    by (auto split: option.splits)
  from fr show "getCachedNoteContent e filename True st = (Inl error, st2)"
    by (simp add: getCachedNoteContent_def l f miss rd)
  from fr readNoteAPI_frame [OF rd] show "contentCache st2 = contentCache st" by simp
next
  fix error st1
  assume rd: "readNoteAPI e filename st = (Inl error, st1)"
  then show "getCachedNoteContent e filename False st = (Inl error, st1)"
    by (simp add: getCachedNoteContent_def)
  from readNoteAPI_frame [OF rd] show "contentCache st1 = contentCache st" by simp
qed

lemma storeA_listing_missing:
  "getFullFileListingAPI storeA state0
     = (Inr [fileA], state0\<lparr>requests := [Get (indexUrl storeA)]\<rparr>)
   \<and> find (\<lambda>f. sb_name f = ''b.md'') [fileA] = None"
  by (simp add: getFullFileListingAPI_def fetch_def indexUrl_def ok_def endsWith_def example_defs)

lemma storeDown_listing:
  "getFullFileListingAPI storeDown state0
     = (Inl (Error ''connect ECONNREFUSED''), state0\<lparr>requests := [Get (indexUrl storeDown)]\<rparr>)"
  by (simp add: getFullFileListingAPI_def fetch_def indexUrl_def storeDown_def example_defs)

lemma storeA500_listing:
  "getFullFileListingAPI storeA500 state0
     = (Inr [fileA], state0\<lparr>requests := [Get (indexUrl storeA500)]\<rparr>)
   \<and> find (\<lambda>f. sb_name f = ''a.md'') [fileA] = Some fileA
   \<and> (\<forall>cached. contentCache state0 ''a.md'' = Some cached
              \<longrightarrow> ce_lastModified cached < sb_lastModified fileA)"
  by (simp add: getFullFileListingAPI_def fetch_def indexUrl_def ok_def endsWith_def storeA500_def example_defs)

lemma showNat_500: "showNat 500 = ''500''" by code_simp

lemma storeA500_read:
  "readNoteAPI storeA500 ''a.md'' st
     = (Inl error500,
        consoleError ''[API] Error response body for to read note a.md (first 500 chars): Internal Server Error''
          None (st\<lparr>requests := requests st @ [Get (noteUrl storeA500 ''a.md'')]\<rparr>))"
  by (simp add: readNoteAPI_def fetch_def noteUrl_def ok_def handleResponseError_def error500_def
        storeA500_def example_defs showNat_500)

theorem getCachedNoteContent_errors_witness:
  "getCachedNoteContent storeA ''b.md'' True state0
     = (Inl (Error ''Note b.md not found''), state0\<lparr>requests := [Get (indexUrl storeA)]\<rparr>)
   \<and> getCachedNoteContent storeDown ''a.md'' True state0
     = (Inl (Error ''connect ECONNREFUSED''), state0\<lparr>requests := [Get (indexUrl storeDown)]\<rparr>)
   \<and> fst (getCachedNoteContent storeA500 ''a.md'' True state0) = Inl error500
   \<and> fst (getCachedNoteContent storeA500 ''a.md'' False state0) = Inl error500"
proof (intro conjI)
  from getCachedNoteContent_errors [of storeA state0 "''b.md''", THEN conjunct1, rule_format, OF storeA_listing_missing]
  show "getCachedNoteContent storeA ''b.md'' True state0
     = (Inl (Error ''Note b.md not found''), state0\<lparr>requests := [Get (indexUrl storeA)]\<rparr>)"
    by simp
  from getCachedNoteContent_errors [of storeDown state0 "''a.md''", THEN conjunct2, THEN conjunct1, rule_format, OF storeDown_listing]
  show "getCachedNoteContent storeDown ''a.md'' True state0
     = (Inl (Error ''connect ECONNREFUSED''), state0\<lparr>requests := [Get (indexUrl storeDown)]\<rparr>)"
    by simp
  have h: "getFullFileListingAPI storeA500 state0
     = (Inr [fileA], state0\<lparr>requests := [Get (indexUrl storeA500)]\<rparr>)
   \<and> find (\<lambda>f. sb_name f = ''a.md'') [fileA] = Some fileA
   \<and> (\<forall>cached. contentCache state0 ''a.md'' = Some cached
              \<longrightarrow> ce_lastModified cached < sb_lastModified fileA)
   \<and> readNoteAPI storeA500 ''a.md'' (state0\<lparr>requests := [Get (indexUrl storeA500)]\<rparr>)
     = (Inl error500,
        consoleError ''[API] Error response body for to read note a.md (first 500 chars): Internal Server Error''
          None (state0\<lparr>requests := [Get (indexUrl storeA500)]\<rparr>\<lparr>requests := requests (state0\<lparr>requests := [Get (indexUrl storeA500)]\<rparr>) @ [Get (noteUrl storeA500 ''a.md'')]\<rparr>))"
    using storeA500_listing storeA500_read by simp
  from getCachedNoteContent_errors [of storeA500 state0 "''a.md''", THEN conjunct2, THEN conjunct2, THEN conjunct1, rule_format, OF h]
  show "fst (getCachedNoteContent storeA500 ''a.md'' True state0) = Inl error500"
    by simp
  from getCachedNoteContent_errors [of storeA500 state0 "''a.md''", THEN conjunct2, THEN conjunct2, THEN conjunct2, rule_format, OF storeA500_read]
  show "fst (getCachedNoteContent storeA500 ''a.md'' False state0) = Inl error500"
    by simp
qed

section \<open>Properties of search-notes\<close>


lemma escapeClass_syntax: "set escapeClass = set syntaxCharacters"
  by (auto simp: escapeClass_def syntaxCharacters_def)

lemma backslash_syntax: "CHR 0x5C \<in> set syntaxCharacters"
  by (simp add: syntaxCharacters_def)

lemma literalPattern_escaped:
  "c \<in> set syntaxCharacters \<Longrightarrow>
     literalPattern (CHR 0x5C # c # rest) = map_option (Cons c) (literalPattern rest)"
  by simp

lemma literalPattern_plain:
  "c \<notin> set syntaxCharacters \<Longrightarrow>
     literalPattern (c # rest) = map_option (Cons c) (literalPattern rest)"
  using backslash_syntax by (cases rest) auto

lemma literalPattern_escapeRegExp: "literalPattern (escapeRegExp q) = Some q"
proof (induction q)
  case Nil
  show ?case by (simp add: escapeRegExp_def)
next
  case (Cons c q)
  have unfold: "escapeRegExp (c # q) =
      (if c \<in> set syntaxCharacters then CHR 0x5C # c # escapeRegExp q else c # escapeRegExp q)"
    by (simp add: escapeRegExp_def escapeClass_syntax)
  show ?case
  proof (cases "c \<in> set syntaxCharacters")
    case True
    with Cons unfold show ?thesis by (simp add: literalPattern_escaped del: literalPattern.simps)
  next
    case False
    with Cons unfold show ?thesis by (simp add: literalPattern_plain del: literalPattern.simps)
  qed
qed

lemma newRegExp_escaped: "newRegExp e (escapeRegExp q) ic = Inr (Literal q ic)"
  by (simp add: newRegExp_def literalPattern_escapeRegExp)

lemma compileSearchRegex_fallback:
  "newRegExp e q (\<not> cs) = Inl error \<Longrightarrow> compileSearchRegex e q cs = Inr (Literal q (\<not> cs), True)"
  by (simp add: compileSearchRegex_def newRegExp_escaped)

lemma compileSearchRegex_total: "\<exists>re fb. compileSearchRegex e q cs = Inr (re, fb)"
  by (auto simp: compileSearchRegex_def newRegExp_escaped split: sum.splits)

lemma searchWith_not_failed: "fst (searchWith e a re fb notes st) \<noteq> SearchFailed msg"
  by (auto simp: searchWith_def Let_def split: prod.splits)


lemma occurrences_sublist: "(0 < occurrences lit s) = sublist lit s"
proof (induction lit s rule: occurrences.induct)
  case (1 lit)
  show ?case by simp
next
  case (2 lit c cs)
  have pre: "(take (length lit) (c # cs) = lit) = prefix lit (c # cs)"
    by (metis prefix_def append_eq_conv_conj append_take_drop_id)
  show ?case
  proof (cases "lit = []")
    case True
    then show ?thesis by simp
  next
    case False
    show ?thesis
    proof (cases "prefix lit (c # cs)")
      case True
      with False pre show ?thesis by (simp add: prefix_imp_sublist)
    next
      case no: False
      with False pre 2 show ?thesis by (simp add: sublist_Cons_right)
    qed
  qed
qed

text \<open>
  Claim C4. The escaped form of any query is a valid pattern that spells the query
  itself. Hence, whenever \<open>new RegExp(query, flags)\<close> throws, the search-notes handler
  compiles the escaped query, which cannot throw, sets the fallback flag and searches
  the query as a literal text (case-folded under the \<open>i\<close> flag): a line matches
  exactly when it contains the text, and the handler does not end in its failure
  branch when the listing succeeded. In particular \<open>a(\<close>, which the engine rejects,
  is escaped to \<open>a\(\<close> and searched as the text \<open>a(\<close>.
\<close>

theorem search_notes_invalid_pattern:
  "literalPattern (escapeRegExp q) = Some q
   \<and> (\<forall>error. newRegExp e q (\<not> cs) = Inl error \<longrightarrow>
         compileSearchRegex e q cs = Inr (Literal q (\<not> cs), True))
   \<and> (\<forall>error notes st1.
         newRegExp e (query a) (\<not> caseSensitive a) = Inl error
         \<and> listNotesAPI e st = (Inr notes, st1) \<longrightarrow>
         search_notes e a st = searchWith e a (Literal (query a) (\<not> caseSensitive a)) True notes st1
         \<and> (\<forall>msg. fst (search_notes e a st) \<noteq> SearchFailed msg))
   \<and> (\<forall>s. matchAllCount e (Literal q False) s = occurrences q s
          \<and> matchAllCount e (Literal q True) s = occurrences (map toUpperChar q) (map toUpperChar s)
          \<and> (0 < matchAllCount e (Literal q False) s) = sublist q s)
   \<and> (regexError e ''a('' \<noteq> None \<longrightarrow>
         compileSearchRegex e ''a('' cs = Inr (Literal ''a('' (\<not> cs), True))
   \<and> escapeRegExp ''a('' = ''a'' @ [CHR 0x5C] @ ''(''"
proof (intro conjI allI impI)
  show "literalPattern (escapeRegExp q) = Some q" by (rule literalPattern_escapeRegExp)
next
  fix error assume "newRegExp e q (\<not> cs) = Inl error"
  then show "compileSearchRegex e q cs = Inr (Literal q (\<not> cs), True)"
    by (rule compileSearchRegex_fallback)
next
  fix error and listed :: "NoteInfo list" and st1
  assume h: "newRegExp e (query a) (\<not> caseSensitive a) = Inl error
         \<and> listNotesAPI e st = (Inr listed, st1)"
  then have c: "compileSearchRegex e (query a) (caseSensitive a)
                  = Inr (Literal (query a) (\<not> caseSensitive a), True)"
    by (simp add: compileSearchRegex_fallback)
  with h show eq: "search_notes e a st
      = searchWith e a (Literal (query a) (\<not> caseSensitive a)) True listed st1"
    by (simp add: search_notes_def)
  fix msg
  show "fst (search_notes e a st) \<noteq> SearchFailed msg"
    unfolding eq by (rule searchWith_not_failed)
next
  fix s
  show "matchAllCount e (Literal q False) s = occurrences q s" by simp
  show "matchAllCount e (Literal q True) s = occurrences (map toUpperChar q) (map toUpperChar s)"
    by simp
  show "(0 < matchAllCount e (Literal q False) s) = sublist q s"
    by (simp add: occurrences_sublist)
next
  assume "regexError e ''a('' \<noteq> None"
  then have "\<exists>error. newRegExp e ''a('' (\<not> cs) = Inl error"
    by (auto simp: newRegExp_def syntaxCharacters_def)
  then show "compileSearchRegex e ''a('' cs = Inr (Literal ''a('' (\<not> cs), True)"
    by (auto simp: compileSearchRegex_fallback)
next
  show "escapeRegExp ''a('' = ''a'' @ [CHR 0x5C] @ ''(''"
    by (simp add: escapeRegExp_def escapeClass_def)
qed

lemmas storeC_defs = storeC_def fileC_def bodyC_def exampleStore_def exampleBase_def
  jsonResponse_def textResponse_def errorResponse_def state0_def defaultArgs_def

lemma storeC_rejects:
  "newRegExp storeC (query (defaultArgs ''a('')) (\<not> caseSensitive (defaultArgs ''a(''))
     = Inl (Error ''Invalid regular expression: /a(/'')"
  by (simp add: newRegExp_def syntaxCharacters_def storeC_defs)

lemma storeC_list:
  "listNotesAPI storeC state0
     = (Inr [\<lparr>ni_name = ''c.md'', ni_perm = ro\<rparr>], state0\<lparr>requests := [Get (indexUrl storeC)]\<rparr>)"
  by (simp add: listNotesAPI_def fetch_def indexUrl_def ok_def endsWith_def storeC_defs)

lemma storeC_eval:
  "map (\<lambda>r. (sr_filename r, sr_score r, map (\<lambda>m. (sm_line m, sm_matchCount m)) (sr_matches r)))
     (repliedResults (fst (searchWith storeC (defaultArgs ''a('') (Literal ''a('' True) True
        [\<lparr>ni_name = ''c.md'', ni_perm = ro\<rparr>] (state0\<lparr>requests := [Get (indexUrl storeC)]\<rparr>))))
   = [(''c.md'', 3, [(1, 1), (3, 2)])]"
  by code_simp

theorem search_notes_invalid_pattern_witness:
  "newRegExp storeC ''a('' True = Inl (Error ''Invalid regular expression: /a(/'')
   \<and> regexError storeC ''a('' \<noteq> None
   \<and> compileSearchRegex storeC ''a('' False = Inr (Literal ''a('' True, True)
   \<and> map (\<lambda>r. (sr_filename r, sr_score r,
                 map (\<lambda>m. (sm_line m, sm_matchCount m)) (sr_matches r)))
         (repliedResults (fst (search_notes storeC (defaultArgs ''a('') state0)))
       = [(''c.md'', 3, [(1, 1), (3, 2)])]"
proof (intro conjI)
  from storeC_rejects
  show "newRegExp storeC ''a('' True = Inl (Error ''Invalid regular expression: /a(/'')"
    by (simp add: defaultArgs_def)
  show rej: "regexError storeC ''a('' \<noteq> None"
    by (simp add: storeC_defs)
  from search_notes_invalid_pattern [of "''a(''" storeC False "defaultArgs ''a(''" state0,
        THEN conjunct2, THEN conjunct2, THEN conjunct2, THEN conjunct2, THEN conjunct1] rej
  show "compileSearchRegex storeC ''a('' False = Inr (Literal ''a('' True, True)"
    by simp
  from search_notes_invalid_pattern [of "''a(''" storeC False "defaultArgs ''a(''" state0,
        THEN conjunct2, THEN conjunct2, THEN conjunct1, rule_format,
        OF conjI [OF storeC_rejects storeC_list], THEN conjunct1]
  have "search_notes storeC (defaultArgs ''a('') state0
          = searchWith storeC (defaultArgs ''a('') (Literal ''a('' True) True
              [\<lparr>ni_name = ''c.md'', ni_perm = ro\<rparr>]
              (state0\<lparr>requests := [Get (indexUrl storeC)]\<rparr>)"
    by (simp add: defaultArgs_def)
  then show "map (\<lambda>r. (sr_filename r, sr_score r,
                 map (\<lambda>m. (sm_line m, sm_matchCount m)) (sr_matches r)))
         (repliedResults (fst (search_notes storeC (defaultArgs ''a('') state0)))
       = [(''c.md'', 3, [(1, 1), (3, 2)])]"
    by (simp only: storeC_eval)
qed































section \<open>Properties of the scans over the notes\<close>



lemma getCachedNoteContent_failed_cache:
  assumes "getCachedNoteContent e f c st = (Inl err, st1)"
  shows "contentCache st1 = contentCache st"
proof (cases c)
  case False
  with assms have "readNoteAPI e f st = (Inl err, st1)" by (simp add: getCachedNoteContent_def)
  from readNoteAPI_frame [OF this] show ?thesis by simp
next
  case True
  obtain r sa where l: "getFullFileListingAPI e st = (r, sa)"
    by (cases "getFullFileListingAPI e st")
  note fl = getFullFileListingAPI_frame [OF l]
  show ?thesis
  proof (cases r)
    case (Inl x)
    with assms True l have "st1 = sa" by (simp add: getCachedNoteContent_def)
    with fl show ?thesis by simp
  next
    case (Inr files)
    show ?thesis
    proof (cases "find (\<lambda>x. sb_name x = f) files")
      case None
      with assms True l Inr have "st1 = sa" by (simp add: getCachedNoteContent_def)
      with fl show ?thesis by simp
    next
      case (Some info)
      obtain r2 sb where rd: "readNoteAPI e f sa = (r2, sb)" by (cases "readNoteAPI e f sa")
      note fr = readNoteAPI_frame [OF rd]
      from assms True l Inr Some rd have "st1 = sb \<or> st1 = sa"
        by (auto simp: getCachedNoteContent_def split: option.splits if_splits sum.splits)
      with fl fr show ?thesis by auto
    qed
  qed
qed

lemma searchLoop_failed_read:
  assumes "getCachedNoteContent e (ni_name n) (enableCaching a) st = (Inl error, st1)"
      and "searchType a \<noteq> SearchTitle"
  shows "searchLoop e a re (n # ns) st
     = (let st2 = consoleError (''[MCP Tool: search-notes] Failed to read note '' @ ni_name n @ '':'')
                    (Some error) st1;
            (rest, st3) = searchLoop e a re ns st2
        in ((if titleMatches e a re n = [] then []
             else [\<lparr>sr_filename = ni_name n, sr_permission = ni_perm n,
                    sr_matches = titleMatches e a re n,
                    sr_score = sum_list (map sm_matchCount (titleMatches e a re n))\<rparr>]) @ rest,
            st3))"
proof -
  from assms(2) have ty: "searchType a = SearchContent \<or> searchType a = SearchBoth"
    by (cases "searchType a") simp_all
  with assms(1) have "searchNote e a re n st
     = (if titleMatches e a re n = [] then []
        else [\<lparr>sr_filename = ni_name n, sr_permission = ni_perm n,
               sr_matches = titleMatches e a re n,
               sr_score = sum_list (map sm_matchCount (titleMatches e a re n))\<rparr>],
        consoleError (''[MCP Tool: search-notes] Failed to read note '' @ ni_name n @ '':'')
                    (Some error) st1)"
    by (auto simp: searchNote_def Let_def)
  then show ?thesis by (simp add: Let_def)
qed

lemma contentFilter_failed_read:
  assumes "getCachedNoteContent e (ni_name n) True st = (Inl error, st1)"
  shows "contentFilter e c (n # ns) st
     = contentFilter e c ns
         (consoleError (''[MCP Tool: list-notes] Failed to read note '' @ ni_name n @ '':'')
            (Some error) st1)"
  using assms by simp

lemma search_notes_completes:
  "listNotesAPI e st = (Inr listed, st1) \<Longrightarrow> fst (search_notes e a st) \<noteq> SearchFailed msg"
proof -
  assume l: "listNotesAPI e st = (Inr listed, st1)"
  obtain re fb where "compileSearchRegex e (query a) (caseSensitive a) = Inr (re, fb)"
    using compileSearchRegex_total by blast
  with l show ?thesis by (simp add: search_notes_def searchWith_not_failed)
qed

lemma list_notes_completes:
  "listNotesAPI e st = (Inr listed, st1) \<Longrightarrow> truthy namePattern = None \<Longrightarrow>
     \<not> tr_isError (fst (list_notes e namePattern permission contentSearch st))"
  by (simp add: list_notes_def Let_def split: prod.splits option.splits)



text \<open>
  A failed read leaves no trace in what the tools return. On the store where the read
  of \<open>b.md\<close> fails with the status 500, search-notes and list-notes return exactly
  what they return on the store where \<open>b.md\<close> is read and has no match: the result
  for \<open>a.md\<close> alone, with no list of errors. The failure is on the console only.
\<close>

theorem scan_failure_not_reported:
  "fst (search_notes storeFailingB argsFoo state0) = replyA
   \<and> fst (search_notes storeQuietB argsFoo state0) = replyA
   \<and> fst (list_notes storeFailingB None None (Some ''foo'') state0) = listedA
   \<and> fst (list_notes storeQuietB None None (Some ''foo'') state0) = listedA
   \<and> console (snd (search_notes storeFailingB argsFoo state0))
       = [ConsoleError ''[API] Error response body for to read note b.md (first 500 chars): Internal Server Error'' None,
          ConsoleError ''[MCP Tool: search-notes] Failed to read note b.md:'' (Some error500B)]
   \<and> console (snd (search_notes storeQuietB argsFoo state0)) = []"
proof (intro conjI)
  show "fst (search_notes storeFailingB argsFoo state0) = replyA" by code_simp
  show "fst (search_notes storeQuietB argsFoo state0) = replyA" by code_simp
  show "fst (list_notes storeFailingB None None (Some ''foo'') state0) = listedA" by code_simp
  show "fst (list_notes storeQuietB None None (Some ''foo'') state0) = listedA" by code_simp
  show "console (snd (search_notes storeFailingB argsFoo state0))
       = [ConsoleError ''[API] Error response body for to read note b.md (first 500 chars): Internal Server Error'' None,
          ConsoleError ''[MCP Tool: search-notes] Failed to read note b.md:'' (Some error500B)]"
    by code_simp
  show "console (snd (search_notes storeQuietB argsFoo state0)) = []" by code_simp
qed

text \<open>
  Claim C7, as the code has it. When the read of a note's body fails in the loop of
  search-notes (the content being searched) or in the content filter of list-notes,
  the error is written to the console with \<open>console.error\<close>, the cache is as before,
  the note gets no content match (search-notes keeps the note's title match when there
  is one, list-notes leaves the note out), and the loop goes on with the remaining
  notes. When the listing succeeded, search-notes does not end in its failure branch,
  and neither does list-notes when no name pattern is given.
\<close>

theorem scan_skips_failed_read:
  "(\<forall>error st1.
       getCachedNoteContent e (ni_name n) (enableCaching a) st = (Inl error, st1)
       \<and> searchType a \<noteq> SearchTitle \<longrightarrow>
       searchLoop e a re (n # ns) st
         = (let st2 = consoleError (''[MCP Tool: search-notes] Failed to read note ''
                                    @ ni_name n @ '':'') (Some error) st1;
                (rest, st3) = searchLoop e a re ns st2
            in ((if titleMatches e a re n = [] then []
                 else [\<lparr>sr_filename = ni_name n, sr_permission = ni_perm n,
                        sr_matches = titleMatches e a re n,
                        sr_score = sum_list (map sm_matchCount (titleMatches e a re n))\<rparr>])
                @ rest, st3))
       \<and> contentCache st1 = contentCache st)
   \<and> (\<forall>error st1.
         getCachedNoteContent e (ni_name n) True st = (Inl error, st1) \<longrightarrow>
         contentFilter e c (n # ns) st
           = contentFilter e c ns
               (consoleError (''[MCP Tool: list-notes] Failed to read note '' @ ni_name n @ '':'')
                  (Some error) st1)
         \<and> contentCache st1 = contentCache st)
   \<and> (\<forall>listed st1.
         listNotesAPI e st = (Inr listed, st1) \<longrightarrow>
         (\<forall>msg. fst (search_notes e a st) \<noteq> SearchFailed msg)
         \<and> (truthy namePattern = None \<longrightarrow>
              \<not> tr_isError (fst (list_notes e namePattern permission contentSearch st))))"
proof (intro conjI allI impI; (elim conjE)?)
  fix error st1
  assume h: "getCachedNoteContent e (ni_name n) (enableCaching a) st = (Inl error, st1)"
    and ty: "searchType a \<noteq> SearchTitle"
  from h ty show "searchLoop e a re (n # ns) st
         = (let st2 = consoleError (''[MCP Tool: search-notes] Failed to read note ''
                                    @ ni_name n @ '':'') (Some error) st1;
                (rest, st3) = searchLoop e a re ns st2
            in ((if titleMatches e a re n = [] then []
                 else [\<lparr>sr_filename = ni_name n, sr_permission = ni_perm n,
                        sr_matches = titleMatches e a re n,
                        sr_score = sum_list (map sm_matchCount (titleMatches e a re n))\<rparr>])
                @ rest, st3))"
    by (rule searchLoop_failed_read)
  from h show "contentCache st1 = contentCache st" by (rule getCachedNoteContent_failed_cache)
next
  fix error st1
  assume h: "getCachedNoteContent e (ni_name n) True st = (Inl error, st1)"
  then show "contentFilter e c (n # ns) st
           = contentFilter e c ns
               (consoleError (''[MCP Tool: list-notes] Failed to read note '' @ ni_name n @ '':'')
                  (Some error) st1)"
    by (rule contentFilter_failed_read)
  from h show "contentCache st1 = contentCache st" by (rule getCachedNoteContent_failed_cache)
next
  fix listed :: "NoteInfo list" and st1 msg
  assume "listNotesAPI e st = (Inr listed, st1)"
  then show "fst (search_notes e a st) \<noteq> SearchFailed msg" by (rule search_notes_completes)
next
  fix listed :: "NoteInfo list" and st1
  assume "listNotesAPI e st = (Inr listed, st1)" "truthy namePattern = None"
  then show "\<not> tr_isError (fst (list_notes e namePattern permission contentSearch st))"
    by (rule list_notes_completes)
qed

lemma failingB_read:
  "getCachedNoteContent storeFailingB (ni_name noteB) (enableCaching argsFoo) state0
     = (Inl error500B,
        snd (getCachedNoteContent storeFailingB (ni_name noteB) (enableCaching argsFoo) state0))"
proof -
  have "fst (getCachedNoteContent storeFailingB (ni_name noteB) (enableCaching argsFoo) state0)
          = Inl error500B"
    by code_simp
  then show ?thesis by (metis prod.collapse)
qed

lemma failingB_read_cached:
  "getCachedNoteContent storeFailingB (ni_name noteB) True state0
     = (Inl error500B, snd (getCachedNoteContent storeFailingB (ni_name noteB) True state0))"
proof -
  have "fst (getCachedNoteContent storeFailingB (ni_name noteB) True state0) = Inl error500B"
    by code_simp
  then show ?thesis by (metis prod.collapse)
qed

lemma failingB_rest:
  "fst (searchLoop storeFailingB argsFoo (Literal ''foo'' True) [noteA]
          (consoleError (''[MCP Tool: search-notes] Failed to read note '' @ ni_name noteB @ '':'')
             (Some error500B)
             (snd (getCachedNoteContent storeFailingB (ni_name noteB) (enableCaching argsFoo) state0))))
     = [resultA]"
  by code_simp

lemma failingB_title: "titleMatches storeFailingB argsFoo (Literal ''foo'' True) noteB = []"
  by code_simp

lemma failingB_filter_rest:
  "fst (contentFilter storeFailingB ''foo'' [noteA]
          (consoleError (''[MCP Tool: list-notes] Failed to read note '' @ ni_name noteB @ '':'')
             (Some error500B)
             (snd (getCachedNoteContent storeFailingB (ni_name noteB) True state0))))
     = [noteA]"
  by code_simp

lemma failingB_list:
  "listNotesAPI storeFailingB state0
     = (Inr [noteB, noteA], snd (listNotesAPI storeFailingB state0))"
proof -
  have "fst (listNotesAPI storeFailingB state0) = Inr [noteB, noteA]" by code_simp
  then show ?thesis by (metis prod.collapse)
qed

theorem scan_skips_failed_read_witness:
  "fst (getCachedNoteContent storeFailingB (ni_name noteB) (enableCaching argsFoo) state0)
     = Inl error500B
   \<and> searchType argsFoo \<noteq> SearchTitle
   \<and> fst (searchLoop storeFailingB argsFoo (Literal ''foo'' True) [noteB, noteA] state0) = [resultA]
   \<and> fst (contentFilter storeFailingB ''foo'' [noteB, noteA] state0) = [noteA]
   \<and> fst (listNotesAPI storeFailingB state0) = Inr [noteB, noteA]
   \<and> fst (search_notes storeFailingB argsFoo state0) \<noteq> SearchFailed ''Failed to search notes''
   \<and> \<not> tr_isError (fst (list_notes storeFailingB None None (Some ''foo'') state0))"
proof -
  note inst = scan_skips_failed_read [of storeFailingB noteB argsFoo state0 "Literal ''foo'' True" "[noteA]" "''foo''"
                     None None "Some ''foo''"]
  have ty: "searchType argsFoo \<noteq> SearchTitle" by (simp add: argsFoo_def defaultArgs_def)
  note step = inst [THEN conjunct1, rule_format, OF conjI [OF failingB_read ty], THEN conjunct1]
  have loop: "fst (searchLoop storeFailingB argsFoo (Literal ''foo'' True) [noteB, noteA] state0)
                = [resultA]"
    unfolding step
    by (simp only: Let_def case_prod_beta fst_conv failingB_title failingB_rest simp_thms
          if_True append_Nil)
  note skip = inst [THEN conjunct2, THEN conjunct1, rule_format, OF failingB_read_cached,
                    THEN conjunct1]
  have filt: "fst (contentFilter storeFailingB ''foo'' [noteB, noteA] state0) = [noteA]"
    unfolding skip by (rule failingB_filter_rest)
  from inst [THEN conjunct2, THEN conjunct2, rule_format, OF failingB_list]
  have fin: "fst (search_notes storeFailingB argsFoo state0) \<noteq> SearchFailed ''Failed to search notes''"
    "\<not> tr_isError (fst (list_notes storeFailingB None None (Some ''foo'') state0))"
    by simp_all
  from failingB_read have rd: "fst (getCachedNoteContent storeFailingB (ni_name noteB)
      (enableCaching argsFoo) state0) = Inl error500B"
    by (metis fst_conv)
  from failingB_list have li: "fst (listNotesAPI storeFailingB state0) = Inr [noteB, noteA]"
    by (metis fst_conv)
  from rd ty loop filt li fin show ?thesis by blast
qed

section \<open>Properties of create-note\<close>


lemma writeNoteAPI_frame:
  "requests (snd (writeNoteAPI e filename content st)) = requests st @ [Put (noteUrl e filename) content]
   \<and> contentCache (snd (writeNoteAPI e filename content st)) = contentCache st"
  by (auto simp: writeNoteAPI_def Let_def consoleError_def fetch_def handleFetchError_def
        handleResponseError_def split: sum.splits prod.splits if_splits)

lemma readNoteAPI_throws_fetch:
  "respond e (requests st) (Get (noteUrl e filename)) = Inl error \<Longrightarrow>
     isl (fst (readNoteAPI e filename st))"
  by (simp add: readNoteAPI_def fetch_def Let_def handleFetchError_def)

lemma readNoteAPI_throws_status:
  "respond e (requests st) (Get (noteUrl e filename)) = Inr resp \<Longrightarrow> \<not> ok resp \<Longrightarrow>
     isl (fst (readNoteAPI e filename st))"
  by (simp add: readNoteAPI_def fetch_def Let_def handleResponseError_def split: sum.splits)

lemma create_note_exists:
  assumes "endsWith filename ''.md''" "readNoteAPI e filename st = (Inr existing, st1)"
  shows "create_note e filename content False st
     = (\<lparr>tr_text = ''Note '' @ filename @ '' already exists. Use overwrite=true to replace it.'',
         tr_isError = True\<rparr>, st1)"
  using assms by (simp add: create_note_def)

lemma create_note_absent:
  assumes "endsWith filename ''.md''" "readNoteAPI e filename st = (Inl error, st1)"
  shows "requests (snd (create_note e filename content False st))
     = requests st @ [Get (noteUrl e filename), Put (noteUrl e filename) content]"
proof -
  from readNoteAPI_frame [OF assms(2)]
  have r1: "requests st1 = requests st @ [Get (noteUrl e filename)]" by simp
  obtain w st2 where w: "writeNoteAPI e filename content st1 = (w, st2)"
    by (cases "writeNoteAPI e filename content st1")
  with writeNoteAPI_frame [of e filename content st1]
  have r2: "requests st2 = requests st1 @ [Put (noteUrl e filename) content]" by simp
  from assms w have "requests (snd (create_note e filename content False st)) = requests st2"
    by (cases w) (simp_all add: create_note_def consoleError_def)
  with r1 r2 show ?thesis by simp
qed

text \<open>
  Claim C10. create-note with \<open>overwrite = false\<close>: a file name that does not end in
  \<open>.md\<close> is refused without any request. Otherwise the note is read first; when the
  read succeeds the tool returns the error \<open>already exists\<close> and its only request is
  that read; when the read throws, the write follows; so a PUT is issued exactly when
  the read throws. The read throws when \<open>fetch\<close> rejects (a connection failure) and
  on every status outside 200 to 299 (a 500 as much as a 404), so the write also
  proceeds when the note exists and could not be read.
\<close>

theorem create_note_existence_check:
  "(\<not> endsWith filename ''.md'' \<longrightarrow>
      create_note e filename content False st
        = (\<lparr>tr_text = ''Filename must end with .md extension'', tr_isError = True\<rparr>, st))
   \<and> (endsWith filename ''.md'' \<longrightarrow>
        (\<forall>existing st1. readNoteAPI e filename st = (Inr existing, st1) \<longrightarrow>
           create_note e filename content False st
             = (\<lparr>tr_text = ''Note '' @ filename
                           @ '' already exists. Use overwrite=true to replace it.'',
                 tr_isError = True\<rparr>, st1)
           \<and> requests st1 = requests st @ [Get (noteUrl e filename)])
        \<and> (\<forall>error st1. readNoteAPI e filename st = (Inl error, st1) \<longrightarrow>
             requests (snd (create_note e filename content False st))
               = requests st @ [Get (noteUrl e filename), Put (noteUrl e filename) content])
        \<and> ((\<exists>url body. Put url body
                \<in> set (drop (length (requests st))
                          (requests (snd (create_note e filename content False st)))))
             = isl (fst (readNoteAPI e filename st))))
   \<and> (\<forall>error. respond e (requests st) (Get (noteUrl e filename)) = Inl error \<longrightarrow>
         isl (fst (readNoteAPI e filename st)))
   \<and> (\<forall>resp. respond e (requests st) (Get (noteUrl e filename)) = Inr resp \<and> \<not> ok resp \<longrightarrow>
         isl (fst (readNoteAPI e filename st)))"
proof (intro conjI allI impI)
  assume "\<not> endsWith filename ''.md''"
  then show "create_note e filename content False st
        = (\<lparr>tr_text = ''Filename must end with .md extension'', tr_isError = True\<rparr>, st)"
    by (simp add: create_note_def)
next
  fix existing st1
  assume md: "endsWith filename ''.md''" and rd: "readNoteAPI e filename st = (Inr existing, st1)"
  then show "create_note e filename content False st
             = (\<lparr>tr_text = ''Note '' @ filename
                           @ '' already exists. Use overwrite=true to replace it.'',
                 tr_isError = True\<rparr>, st1)"
    by (rule create_note_exists)
  from readNoteAPI_frame [OF rd] show "requests st1 = requests st @ [Get (noteUrl e filename)]"
    by simp
next
  fix error st1
  assume "endsWith filename ''.md''" "readNoteAPI e filename st = (Inl error, st1)"
  then show "requests (snd (create_note e filename content False st))
               = requests st @ [Get (noteUrl e filename), Put (noteUrl e filename) content]"
    by (rule create_note_absent)
next
  assume md: "endsWith filename ''.md''"
  obtain r st1 where rd: "readNoteAPI e filename st = (r, st1)"
    by (cases "readNoteAPI e filename st")
  show "(\<exists>url body. Put url body
                \<in> set (drop (length (requests st))
                          (requests (snd (create_note e filename content False st)))))
             = isl (fst (readNoteAPI e filename st))"
  proof (cases r)
    case (Inl error)
    with create_note_absent [OF md, of e st error st1 content] rd show ?thesis by auto
  next
    case (Inr existing)
    with create_note_exists [OF md, of e st existing st1 content] rd readNoteAPI_frame [OF rd]
    show ?thesis by auto
  qed
next
  fix error
  assume "respond e (requests st) (Get (noteUrl e filename)) = Inl error"
  then show "isl (fst (readNoteAPI e filename st))" by (rule readNoteAPI_throws_fetch)
next
  fix resp
  assume "respond e (requests st) (Get (noteUrl e filename)) = Inr resp \<and> \<not> ok resp"
  then show "isl (fst (readNoteAPI e filename st))" by (simp add: readNoteAPI_throws_status)
qed


lemma md_examples: "endsWith ''a.md'' ''.md''" "\<not> endsWith ''a.txt'' ''.md''"
  by (simp_all add: endsWith_def)

lemma storeA500_get:
  "respond storeA500 (requests state0) (Get (noteUrl storeA500 ''a.md''))
     = Inr (errorResponse 500 ''Internal Server Error'')
   \<and> \<not> ok (errorResponse 500 ''Internal Server Error'')"
  by (simp add: storeA500_def exampleStore_def exampleBase_def noteUrl_def ok_def errorResponse_def)

lemma storeA500_read0:
  "readNoteAPI storeA500 ''a.md'' state0
     = (Inl error500, snd (readNoteAPI storeA500 ''a.md'' state0))"
  by (simp add: storeA500_read)

lemma storeA_read0:
  "readNoteAPI storeA ''a.md'' state0
     = (Inr bodyA, state0\<lparr>requests := [Get (noteUrl storeA ''a.md'')]\<rparr>)"
  by (simp add: storeA_read state0_def)

lemma storeA500_created:
  "fst (create_note storeA500 ''a.md'' ''new'' False state0)
     = \<lparr>tr_text = ''Successfully created note: a.md'', tr_isError = False\<rparr>"
  by code_simp

lemma storeDown_get:
  "respond storeDown (requests state0) (Get (noteUrl storeDown ''a.md''))
     = Inl (Error ''connect ECONNREFUSED'')"
  by (simp add: storeDown_def)

theorem create_note_existence_check_witness:
  "endsWith ''a.md'' ''.md'' \<and> \<not> endsWith ''a.txt'' ''.md''
   \<and> fst (getFullFileListingAPI storeA500 state0) = Inr [fileA]
   \<and> respond storeA500 (requests state0) (Get (noteUrl storeA500 ''a.md''))
       = Inr (errorResponse 500 ''Internal Server Error'')
   \<and> isl (fst (readNoteAPI storeA500 ''a.md'' state0))
   \<and> requests (snd (create_note storeA500 ''a.md'' ''new'' False state0))
       = requests state0 @ [Get (noteUrl storeA500 ''a.md''), Put (noteUrl storeA500 ''a.md'') ''new'']
   \<and> fst (create_note storeA500 ''a.md'' ''new'' False state0)
       = \<lparr>tr_text = ''Successfully created note: a.md'', tr_isError = False\<rparr>
   \<and> create_note storeA ''a.md'' ''new'' False state0
       = (\<lparr>tr_text = ''Note '' @ ''a.md'' @ '' already exists. Use overwrite=true to replace it.'',
           tr_isError = True\<rparr>, state0\<lparr>requests := [Get (noteUrl storeA ''a.md'')]\<rparr>)
   \<and> create_note storeA ''a.txt'' ''new'' False state0
       = (\<lparr>tr_text = ''Filename must end with .md extension'', tr_isError = True\<rparr>, state0)
   \<and> isl (fst (readNoteAPI storeDown ''a.md'' state0))"
proof -
  note bad = create_note_existence_check [of "''a.md''" storeA500 "''new''" state0]
  note good = create_note_existence_check [of "''a.md''" storeA "''new''" state0]
  note nomd = create_note_existence_check [of "''a.txt''" storeA "''new''" state0]
  note down = create_note_existence_check [of "''a.md''" storeDown "''new''" state0]
  have exists: "fst (getFullFileListingAPI storeA500 state0) = Inr [fileA]"
    using storeA500_listing by simp
  from bad [THEN conjunct2, THEN conjunct2, THEN conjunct2, rule_format, OF storeA500_get]
  have thrown: "isl (fst (readNoteAPI storeA500 ''a.md'' state0))" .
  from bad [THEN conjunct2, THEN conjunct1, rule_format, OF md_examples(1),
            THEN conjunct2, THEN conjunct1, rule_format, OF storeA500_read0]
  have put: "requests (snd (create_note storeA500 ''a.md'' ''new'' False state0))
       = requests state0 @ [Get (noteUrl storeA500 ''a.md''), Put (noteUrl storeA500 ''a.md'') ''new'']" .
  from good [THEN conjunct2, THEN conjunct1, rule_format, OF md_examples(1),
             THEN conjunct1, rule_format, OF storeA_read0, THEN conjunct1]
  have kept: "create_note storeA ''a.md'' ''new'' False state0
       = (\<lparr>tr_text = ''Note '' @ ''a.md'' @ '' already exists. Use overwrite=true to replace it.'',
           tr_isError = True\<rparr>, state0\<lparr>requests := [Get (noteUrl storeA ''a.md'')]\<rparr>)" .
  from nomd [THEN conjunct1, rule_format, OF md_examples(2)]
  have refused: "create_note storeA ''a.txt'' ''new'' False state0
       = (\<lparr>tr_text = ''Filename must end with .md extension'', tr_isError = True\<rparr>, state0)" .
  from down [THEN conjunct2, THEN conjunct2, THEN conjunct1, rule_format, OF storeDown_get]
  have conn: "isl (fst (readNoteAPI storeDown ''a.md'' state0))" .
  from md_examples exists storeA500_get thrown put storeA500_created kept refused conn
  show ?thesis by blast
qed

section \<open>Properties of the sessions\<close>


lemma paired_effect [simp]: "paired (effect x s) = paired s"
  by (simp add: paired_def effect_def)

lemma fresh_effect [simp]: "fresh (effect x s) = fresh s"
  by (simp add: fresh_def effect_def)

lemma paired_onsessioninitialized: "paired s \<Longrightarrow> paired (onsessioninitialized k sId s)"
  by (simp add: paired_def onsessioninitialized_def)

lemma paired_onclose: "paired s \<Longrightarrow> paired (onclose k s)"
  by (auto simp: paired_def onclose_def effect_def split: option.splits)

lemma paired_sessionIdOf [simp]: "paired (s\<lparr>sessionIdOf := x\<rparr>) = paired s"
  by (simp add: paired_def)

lemma paired_created [simp]: "paired (s\<lparr>created := x\<rparr>) = paired s"
  by (simp add: paired_def)

lemma paired_handleRequest:
  "handleRequest b k nid s = (r, s') \<Longrightarrow> paired s \<Longrightarrow> paired s'"
  by (auto simp: handleRequest_def Let_def paired_onclose paired_onsessioninitialized)

lemma paired_post: "paired s \<Longrightarrow> paired (snd (post_mcp b sessionId nid s))"
  by (auto simp: post_mcp_def Let_def
           split: option.splits prod.splits sum.splits property.splits transport.splits
           dest: paired_handleRequest)

lemma paired_get: "paired s \<Longrightarrow> paired (snd (handleSessionRequest b sessionId s))"
  by (auto simp: handleSessionRequest_def Let_def
           split: option.splits prod.splits sum.splits property.splits transport.splits
           dest: paired_handleRequest)

lemma paired_delete_entries:
  "paired s \<Longrightarrow> paired (s\<lparr>transports := (transports s)(sid := None), mcpServers := (mcpServers s)(sid := None)\<rparr>)"
  by (simp add: paired_def)


lemma paired_delete: "paired s \<Longrightarrow> paired (snd (delete_mcp b sessionId s))"
  by (auto simp: delete_mcp_def Let_def paired_delete_entries effect_def paired_def
           split: option.splits prod.splits sum.splits property.splits transport.splits
           dest: paired_handleRequest)



lemma fresh_onclose: "fresh s \<Longrightarrow> fresh (onclose k s)"
  by (auto simp: fresh_def onclose_def effect_def split: option.splits if_splits)

lemma fresh_handleRequest:
  "handleRequest b k nid s = (r, s') \<Longrightarrow> k < created s \<Longrightarrow> fresh s \<Longrightarrow> fresh s'"
  by (auto simp: handleRequest_def Let_def fresh_def onclose_def effect_def onsessioninitialized_def
           split: option.splits if_splits)

lemma js_get_Own: "js_get m sid = Own v \<Longrightarrow> m sid = Some v"
  by (auto simp: js_get_def split: option.splits if_splits)

lemma fresh_created: "fresh s \<Longrightarrow> fresh (s\<lparr>created := Suc (created s)\<rparr>)"
  by (auto simp: fresh_def less_Suc_eq)

lemma fresh_handleRequest_new:
  assumes "handleRequest b (created s) nid (s\<lparr>created := Suc (created s)\<rparr>) = (r, s')" "fresh s"
  shows "fresh s'"
  using assms(1) by (rule fresh_handleRequest) (simp_all add: fresh_created assms(2))

lemma fresh_handleRequest_old:
  assumes "handleRequest b k nid s = (r, s')" "js_get (transports s) sid = Own (Transport k)" "fresh s"
  shows "fresh s'"
proof -
  from assms(2,3) have "k < created s" by (auto simp: fresh_def dest: js_get_Own)
  with assms(1,3) show ?thesis by (blast intro: fresh_handleRequest)
qed


lemma fresh_post: "fresh s \<Longrightarrow> fresh (snd (post_mcp b sessionId nid s))"
  by (auto simp: post_mcp_def Let_def fresh_created
           split: option.splits prod.splits sum.splits property.splits transport.splits
           dest: fresh_handleRequest_new fresh_handleRequest_old)


lemma fresh_get: "fresh s \<Longrightarrow> fresh (snd (handleSessionRequest b sessionId s))"
  by (auto simp: handleSessionRequest_def Let_def
           split: option.splits prod.splits sum.splits property.splits transport.splits
           dest: fresh_handleRequest_old)

lemma fresh_delete_entries:
  "fresh s \<Longrightarrow> fresh (s\<lparr>transports := (transports s)(sid := None), mcpServers := (mcpServers s)(sid := None)\<rparr>)"
  by (simp add: fresh_def)

lemma fresh_delete: "fresh s \<Longrightarrow> fresh (snd (delete_mcp b sessionId s))"
  by (auto simp: delete_mcp_def Let_def
           split: option.splits prod.splits sum.splits property.splits transport.splits
           dest: fresh_handleRequest_old intro!: fresh_delete_entries)



lemma step_invariant: "paired s \<and> fresh s \<Longrightarrow> paired (step s x) \<and> fresh (step s x)"
  by (cases x)
     (simp_all add: paired_post fresh_post paired_get fresh_get paired_delete fresh_delete
        paired_onclose fresh_onclose)

lemma foldl_invariant: "paired s \<and> fresh s \<Longrightarrow> paired (foldl step s xs) \<and> fresh (foldl step s xs)"
  by (induction xs arbitrary: s) (simp_all add: step_invariant)

lemma startup_invariant: "paired startup \<and> fresh startup"
  by (simp add: paired_def fresh_def startup_def)

lemma run_invariant: "paired (run xs) \<and> fresh (run xs)"
  unfolding run_def using startup_invariant by (rule foldl_invariant)

lemma paired_dom: "paired s \<Longrightarrow> dom (transports s) = dom (mcpServers s)"
proof (rule set_eqI)
  fix sid
  assume p: "paired s"
  show "(sid \<in> dom (transports s)) = (sid \<in> dom (mcpServers s))"
  proof
    assume "sid \<in> dom (transports s)"
    then obtain t where "transports s sid = Some t" by auto
    with p show "sid \<in> dom (mcpServers s)" by (cases t) (auto simp: paired_def)
  next
    assume "sid \<in> dom (mcpServers s)"
    then obtain m where "mcpServers s sid = Some m" by auto
    with p show "sid \<in> dom (transports s)" by (cases m) (auto simp: paired_def)
  qed
qed

lemma unresolved_existing:
  assumes "\<forall>sid. truthy sessionId = Some sid \<longrightarrow> js_get (transports s) sid = Undefined"
  shows "(case truthy sessionId of
               None \<Rightarrow> None
             | Some sid \<Rightarrow>
                 (case (js_get (transports s) sid, js_get (mcpServers s) sid) of
                    (Undefined, m) \<Rightarrow> None
                  | (t, Undefined) \<Rightarrow> None
                  | (t, m) \<Rightarrow> Some t)) = None"
  using assms by (cases "truthy sessionId") simp_all

lemma post_failed_init:
  assumes f: "fresh s"
    and failed: "\<not> initializes b \<or> connectThrows b \<noteq> None"
    and un: "\<forall>sid. truthy sessionId = Some sid \<longrightarrow> js_get (transports s) sid = Undefined"
  shows "transports (snd (post_mcp b sessionId nid s)) = transports s
       \<and> mcpServers (snd (post_mcp b sessionId nid s)) = mcpServers s"
proof -
  from f have none: "sessionIdOf s (created s) = None" by (simp add: fresh_def)
  show ?thesis
  proof (cases "connectThrows b")
    case (Some error)
    then show ?thesis by (simp add: post_mcp_def unresolved_existing [OF un] Let_def)
  next
    case None
    with failed have ni: "\<not> initializes b" by simp
    with none have hr: "handleRequest b (created s) nid (s\<lparr>created := Suc (created s)\<rparr>)
        = (handleThrows b, s\<lparr>created := Suc (created s)\<rparr>)"
      by (simp add: handleRequest_def Let_def onclose_def)
    show ?thesis
      by (simp add: post_mcp_def unresolved_existing [OF un] Let_def None hr effect_def
            split: option.splits)
  qed
qed

lemma post_init:
  assumes f: "fresh s"
    and ok: "initializes b" "connectThrows b = None" "\<not> closes b" "nid \<noteq> []"
    and un: "\<forall>sid. truthy sessionId = Some sid \<longrightarrow> js_get (transports s) sid = Undefined"
  shows "transports (snd (post_mcp b sessionId nid s)) nid = Some (Transport (created s))
       \<and> mcpServers (snd (post_mcp b sessionId nid s)) nid = Some (McpServer (created s))"
proof -
  from f have none: "sessionIdOf s (created s) = None" by (simp add: fresh_def)
  with ok have hr: "handleRequest b (created s) nid (s\<lparr>created := Suc (created s)\<rparr>)
        = (handleThrows b,
           onsessioninitialized (created s) nid
             (s\<lparr>created := Suc (created s),
                sessionIdOf := (sessionIdOf s)(created s \<mapsto> nid)\<rparr>))"
    by (simp add: handleRequest_def Let_def)
  show ?thesis
    by (simp add: post_mcp_def unresolved_existing [OF un] Let_def ok hr effect_def
          onsessioninitialized_def split: option.splits)
qed







text \<open>
  Claim C8. After any sequence of POST, GET and DELETE requests and transport closures,
  whatever the SDK does with each request, the two maps have the same keys, and an id
  is mapped to the transport of a pair exactly when it is mapped to the handler of the
  same pair (so to one pair at most). A POST that creates a pair whose transport does
  not initialise, or whose \<open>connect\<close> fails, leaves both maps as they were; one whose
  transport initialises registers the new pair under the new id in both maps.
\<close>

theorem session_maps_paired:
  "dom (transports (run ops)) = dom (mcpServers (run ops))
   \<and> (\<forall>sid k. (transports (run ops) sid = Some (Transport k))
                = (mcpServers (run ops) sid = Some (McpServer k)))
   \<and> (\<forall>b sessionId newSessionId.
         (\<not> initializes b \<or> connectThrows b \<noteq> None)
         \<and> (\<forall>sid. truthy sessionId = Some sid
                \<longrightarrow> js_get (transports (run ops)) sid = Undefined) \<longrightarrow>
         transports (step (run ops) (PostMcp b sessionId newSessionId)) = transports (run ops)
         \<and> mcpServers (step (run ops) (PostMcp b sessionId newSessionId)) = mcpServers (run ops))
   \<and> (\<forall>b sessionId newSessionId.
         initializes b \<and> connectThrows b = None \<and> \<not> closes b \<and> newSessionId \<noteq> []
         \<and> (\<forall>sid. truthy sessionId = Some sid
                \<longrightarrow> js_get (transports (run ops)) sid = Undefined) \<longrightarrow>
         transports (step (run ops) (PostMcp b sessionId newSessionId)) newSessionId
           = Some (Transport (created (run ops)))
         \<and> mcpServers (step (run ops) (PostMcp b sessionId newSessionId)) newSessionId
           = Some (McpServer (created (run ops))))"
proof (intro conjI allI impI; (elim conjE)?)
  from run_invariant [of ops] show "dom (transports (run ops)) = dom (mcpServers (run ops))"
    by (simp add: paired_dom)
next
  fix sid k
  from run_invariant [of ops]
  show "(transports (run ops) sid = Some (Transport k))
                = (mcpServers (run ops) sid = Some (McpServer k))"
    by (simp add: paired_def)
next
  fix b :: sdk and sessionId and newSessionId :: string
  assume h1: "\<not> initializes b \<or> connectThrows b \<noteq> None"
    and h2: "\<forall>sid. truthy sessionId = Some sid \<longrightarrow> js_get (transports (run ops)) sid = Undefined"
  from run_invariant [of ops] have fr: "fresh (run ops)" by simp
  from fr h1 h2
  have "transports (snd (post_mcp b sessionId newSessionId (run ops))) = transports (run ops)
       \<and> mcpServers (snd (post_mcp b sessionId newSessionId (run ops))) = mcpServers (run ops)"
    by (rule post_failed_init)
  then show "transports (step (run ops) (PostMcp b sessionId newSessionId)) = transports (run ops)"
    "mcpServers (step (run ops) (PostMcp b sessionId newSessionId)) = mcpServers (run ops)"
    by simp_all
next
  fix b :: sdk and sessionId and newSessionId :: string
  assume h1: "initializes b" "connectThrows b = None" "\<not> closes b" "newSessionId \<noteq> []"
    and h2: "\<forall>sid. truthy sessionId = Some sid \<longrightarrow> js_get (transports (run ops)) sid = Undefined"
  from run_invariant [of ops] have fr: "fresh (run ops)" by simp
  from fr h1 h2
  have "transports (snd (post_mcp b sessionId newSessionId (run ops))) newSessionId
          = Some (Transport (created (run ops)))
       \<and> mcpServers (snd (post_mcp b sessionId newSessionId (run ops))) newSessionId
          = Some (McpServer (created (run ops)))"
    by (rule post_init)
  then show "transports (step (run ops) (PostMcp b sessionId newSessionId)) newSessionId
           = Some (Transport (created (run ops)))"
    "mcpServers (step (run ops) (PostMcp b sessionId newSessionId)) newSessionId
           = Some (McpServer (created (run ops)))"
    by simp_all
qed


lemma opsOne_unknown:
  "transports (run opsOne) ''session-2'' = None"
  "mcpServers (run opsOne) ''session-2'' = None"
  by code_simp+




lemma no_header: "\<forall>sid. truthy None = Some sid \<longrightarrow> js_get (transports s) sid = Undefined"
  by simp

lemma session1: "''session-1'' \<noteq> []"
  by simp

theorem session_maps_paired_witness:
  "\<not> initializes sdkNoInit
   \<and> transports (step (run opsOne) (PostMcp sdkNoInit None ''session-2'')) = transports (run opsOne)
   \<and> mcpServers (step (run opsOne) (PostMcp sdkNoInit None ''session-2'')) = mcpServers (run opsOne)
   \<and> initializes sdkInit \<and> connectThrows sdkInit = None \<and> \<not> closes sdkInit
   \<and> transports (step (run []) (PostMcp sdkInit None ''session-1'')) ''session-1''
       = Some (Transport (created (run [])))
   \<and> mcpServers (step (run []) (PostMcp sdkInit None ''session-1'')) ''session-1''
       = Some (McpServer (created (run [])))
   \<and> dom (transports (run (opsOne @ [DeleteMcp sdkThrows (Some ''session-1'')])))
       = dom (mcpServers (run (opsOne @ [DeleteMcp sdkThrows (Some ''session-1'')])))
   \<and> (transports (run opsOne) ''session-1'' = Some (Transport 0))
       = (mcpServers (run opsOne) ''session-1'' = Some (McpServer 0))"
proof -
  have ni: "\<not> initializes sdkNoInit" by (simp add: sdkNoInit_def)
  have i: "initializes sdkInit" "connectThrows sdkInit = None" "\<not> closes sdkInit"
    by (simp_all add: sdkInit_def)
  from session_maps_paired [of opsOne, THEN conjunct2, THEN conjunct2, THEN conjunct1, rule_format,
           of sdkNoInit None "''session-2''"] ni no_header
  have failed:
    "transports (step (run opsOne) (PostMcp sdkNoInit None ''session-2'')) = transports (run opsOne)"
    "mcpServers (step (run opsOne) (PostMcp sdkNoInit None ''session-2'')) = mcpServers (run opsOne)"
    by blast+
  from session_maps_paired [of "[]", THEN conjunct2, THEN conjunct2, THEN conjunct2, rule_format,
           of sdkInit "''session-1''" None] i session1 no_header
  have opened:
    "transports (step (run []) (PostMcp sdkInit None ''session-1'')) ''session-1''
       = Some (Transport (created (run [])))"
    "mcpServers (step (run []) (PostMcp sdkInit None ''session-1'')) ''session-1''
       = Some (McpServer (created (run [])))"
    by blast+
  from session_maps_paired [of "opsOne @ [DeleteMcp sdkThrows (Some ''session-1'')]"]
  have doms: "dom (transports (run (opsOne @ [DeleteMcp sdkThrows (Some ''session-1'')])))
       = dom (mcpServers (run (opsOne @ [DeleteMcp sdkThrows (Some ''session-1'')])))"
    by blast
  from session_maps_paired [of opsOne]
  have both: "(transports (run opsOne) ''session-1'' = Some (Transport 0))
       = (mcpServers (run opsOne) ''session-1'' = Some (McpServer 0))"
    by blast
  from ni i failed opened doms both show ?thesis by blast
qed


end
